theory Spec2Isabelle
  imports Complex_Main "HOL-Library.List_Lexorder"
begin

section \<open>JavaScript values used by the schema generator\<close>

text \<open>
  A JavaScript string is a sequence of UTF-16 code units; a code unit is modelled as a
  natural number. \<open>lit\<close> turns an ASCII literal of the source into code units.
\<close>

type_synonym jsstring = "nat list"

definition lit :: "string \<Rightarrow> jsstring" where
  "lit s = map of_char s"

text \<open>\<open>s.startsWith(p)\<close>, \<open>s.includes(p)\<close> and \<open>s.endsWith(p)\<close>.\<close>

fun startsWith :: "'a list \<Rightarrow> 'a list \<Rightarrow> bool" where
  "startsWith s [] = True"
| "startsWith [] (p # ps) = False"
| "startsWith (c # cs) (p # ps) = (c = p \<and> startsWith cs ps)"

fun includes_str :: "'a list \<Rightarrow> 'a list \<Rightarrow> bool" where
  "includes_str [] p = startsWith [] p"
| "includes_str (c # cs) p = (startsWith (c # cs) p \<or> includes_str cs p)"

definition endsWith :: "'a list \<Rightarrow> 'a list \<Rightarrow> bool" where
  "endsWith s p = startsWith (rev s) (rev p)"

text \<open>\<open>xs.join(sep)\<close> on an array of strings.\<close>

fun join :: "jsstring \<Rightarrow> jsstring list \<Rightarrow> jsstring" where
  "join sep [] = []"
| "join sep [x] = x"
| "join sep (x # y # ys) = x @ sep @ join sep (y # ys)"

text \<open>
  Errors are values. Each constructor carries the \<open>message\<close> of the JavaScript error:
  a \<open>TypeError\<close> of the runtime, a \<open>SyntaxError\<close> of \<open>JSON.parse\<close>, a
  \<open>YAMLException\<close> of \<open>yaml.load\<close>, and a \<open>SystemError\<close> of \<open>fs\<close> (ENOENT, EACCES, ...).
\<close>

datatype js_error =
    TypeError jsstring
  | SyntaxError jsstring
  | YAMLException jsstring
  | SystemError jsstring

fun message :: "js_error \<Rightarrow> jsstring" where
  "message (TypeError m) = m"
| "message (SyntaxError m) = m"
| "message (YAMLException m) = m"
| "message (SystemError m) = m"


text \<open>
  Sequencing of steps that may throw: \<open>then_do m f\<close> runs \<open>f\<close> on the value of \<open>m\<close>, and
  an error of \<open>m\<close> (a thrown exception, a rejected promise under \<open>await\<close>) skips \<open>f\<close>.
\<close>

definition then_do :: "'e + 'a \<Rightarrow> ('a \<Rightarrow> 'e + 'b) \<Rightarrow> 'e + 'b" where
  "then_do m f = (case m of Inl e \<Rightarrow> Inl e | Inr x \<Rightarrow> f x)"

text \<open>
  The values that \<open>JSON.parse\<close> and \<open>yaml.load\<close> produce and that the generator builds as
  object literals. An object is the list of its own properties, each key once, in
  insertion order. A finite number is the rational it denotes, with \<open>NaN\<close> apart; a \<open>Date\<close>
  is its time value in milliseconds.
\<close>

datatype jsvalue =
    JUndefined
  | JNull
  | JBool bool
  | JNumber rat
  | JNaN
  | JString jsstring
  | JDate int
  | JArray "jsvalue list"
  | JObject "(jsstring \<times> jsvalue) list"

fun truthy :: "jsvalue \<Rightarrow> bool" where
  "truthy JUndefined = False"
| "truthy JNull = False"
| "truthy (JBool b) = b"
| "truthy (JNumber n) = (n \<noteq> 0)"
| "truthy JNaN = False"
| "truthy (JString s) = (s \<noteq> [])"
| "truthy (JDate t) = True"
| "truthy (JArray xs) = True"
| "truthy (JObject ps) = True"

text \<open>
  The property read \<open>v.k\<close>, for the keys that the generator and the statements below
  read: \<open>require\<close>, \<open>laravel/framework\<close>, \<open>dependencies\<close>, \<open>devDependencies\<close>, \<open>express\<close>,
  \<open>type\<close>, \<open>metadata\<close>, \<open>framework\<close>, \<open>generatedAt\<close>, \<open>success\<close>, \<open>current\<close>, \<open>versions\<close>,
  \<open>schemas\<close> and \<open>timestamp\<close>. None of them is a property of a built-in prototype, so the
  read gives the own property of an object and \<open>undefined\<close> on every other value, and
  throws on \<open>null\<close> and \<open>undefined\<close>.
\<close>

fun get :: "jsvalue \<Rightarrow> jsstring \<Rightarrow> js_error + jsvalue" where
  "get JUndefined k =
     Inl (TypeError (lit ''Cannot read properties of undefined (reading '' @ [39] @ k @ [39] @ lit '')''))"
| "get JNull k =
     Inl (TypeError (lit ''Cannot read properties of null (reading '' @ [39] @ k @ [39] @ lit '')''))"
| "get (JObject ps) k = Inr (case map_of ps k of Some v \<Rightarrow> v | None \<Rightarrow> JUndefined)"
| "get v k = Inr JUndefined"

text \<open>\<open>a && b\<close> and \<open>a || b\<close>; the right operand is evaluated only when it is needed.\<close>

definition js_and :: "jsvalue \<Rightarrow> js_error + jsvalue \<Rightarrow> js_error + jsvalue" where
  "js_and a b = (if truthy a then b else Inr a)"

definition js_or :: "jsvalue \<Rightarrow> js_error + jsvalue \<Rightarrow> js_error + jsvalue" where
  "js_or a b = (if truthy a then Inr a else b)"

text \<open>
  The assignment \<open>obj[k] = v\<close> on a plain object: an existing own property keeps its
  place, a new one is added last. The key \<open>__proto__\<close> is the accessor of
  \<open>Object.prototype\<close>: assigning to it creates no own property.
\<close>

definition set_property :: "(jsstring \<times> 'v) list \<Rightarrow> jsstring \<Rightarrow> 'v \<Rightarrow> (jsstring \<times> 'v) list" where
  "set_property ps k v =
     (if k = lit ''__proto__'' then ps
      else if k \<in> fst ` set ps then map (\<lambda>(k', v'). if k' = k then (k, v) else (k', v')) ps
      else ps @ [(k, v)])"


section \<open>The framework detector: \<open>detectFramework\<close>\<close>

text \<open>
  What the detector observes of the project root: for a relative path, whether
  \<open>fs.access\<close> resolves (\<open>None\<close>) or rejects with an error (ENOENT for a missing file,
  EACCES, EIO, ...), and what \<open>fs.readFile(path, 'utf8')\<close> gives. \<open>JSON.parse\<close> belongs to
  the JavaScript runtime, not to the generator, and is a parameter of the model.
  \<open>fileExists\<close> catches every rejection of \<open>fs.access\<close> and returns \<open>false\<close>.
\<close>

record project =
  access :: "jsstring \<Rightarrow> js_error option"
  readFile :: "jsstring \<Rightarrow> js_error + jsstring"

type_synonym json_parser = "jsstring \<Rightarrow> js_error + jsvalue"

definition fileExists :: "project \<Rightarrow> jsstring \<Rightarrow> bool" where
  "fileExists pr filePath \<longleftrightarrow> access pr filePath = None"

text \<open>
  \<open>extractLaravelVersion\<close>: the expression
  \<open>(composer.require && composer.require['laravel/framework']) || 'unknown'\<close> inside a
  \<open>try\<close> whose \<open>catch\<close> returns \<open>'unknown'\<close>.
\<close>

definition extractLaravelVersion :: "json_parser \<Rightarrow> jsstring \<Rightarrow> jsvalue" where
  "extractLaravelVersion JSON_parse composerContent =
    (case then_do (JSON_parse composerContent) (\<lambda>composer.
            then_do (get composer (lit ''require'')) (\<lambda>require.
            then_do (js_and require (get require (lit ''laravel/framework''))) (\<lambda>v.
            js_or v (Inr (JString (lit ''unknown'')))))) of
       Inl e \<Rightarrow> JString (lit ''unknown'')
     | Inr version \<Rightarrow> version)"

text \<open>
  \<open>(pkg.dependencies && pkg.dependencies.express) ||
   (pkg.devDependencies && pkg.devDependencies.express)\<close>,
  which the source evaluates for the test and again for the version.
\<close>

definition expressDependency :: "jsvalue \<Rightarrow> js_error + jsvalue" where
  "expressDependency pkg =
    then_do (get pkg (lit ''dependencies'')) (\<lambda>dependencies.
    then_do (js_and dependencies (get dependencies (lit ''express''))) (\<lambda>a.
    js_or a
      (then_do (get pkg (lit ''devDependencies'')) (\<lambda>devDependencies.
       js_and devDependencies (get devDependencies (lit ''express''))))))"

definition frameworkInfo :: "jsstring \<Rightarrow> jsvalue \<Rightarrow> jsvalue" where
  "frameworkInfo t v = JObject [(lit ''type'', JString t), (lit ''version'', v)]"

text \<open>
  The body of the \<open>try\<close> block of \<open>detectFramework\<close>, in the order of the source. The
  blocks ``Check for Laravel'' and ``Check for Express/Node.js'' read files and may throw;
  a block gives \<open>Some info\<close> when it returns \<open>info\<close> and \<open>None\<close> when control falls through.
\<close>

definition checkLaravel :: "json_parser \<Rightarrow> project \<Rightarrow> js_error + jsvalue option" where
  "checkLaravel JSON_parse pr =
    (if fileExists pr (lit ''artisan'') \<and> fileExists pr (lit ''composer.json'')
     then then_do (readFile pr (lit ''composer.json'')) (\<lambda>composerContent.
            if includes_str composerContent (lit ''laravel/framework'')
            then Inr (Some (frameworkInfo (lit ''laravel'')
                              (extractLaravelVersion JSON_parse composerContent)))
            else Inr None)
     else Inr None)"

definition checkExpress :: "json_parser \<Rightarrow> project \<Rightarrow> js_error + jsvalue option" where
  "checkExpress JSON_parse pr =
    (if fileExists pr (lit ''package.json'')
     then then_do (readFile pr (lit ''package.json'')) (\<lambda>packageContent.
          then_do (JSON_parse packageContent) (\<lambda>pkg.
          then_do (expressDependency pkg) (\<lambda>found.
            if truthy found
            then then_do (expressDependency pkg) (\<lambda>version.
                   Inr (Some (frameworkInfo (lit ''express'') version)))
            else Inr None)))
     else Inr None)"

definition detectFramework_try :: "json_parser \<Rightarrow> project \<Rightarrow> js_error + jsvalue" where
  "detectFramework_try JSON_parse pr =
    then_do (checkLaravel JSON_parse pr) (\<lambda>returned.
      case returned of
        Some info \<Rightarrow> Inr info
      | None \<Rightarrow>
          if fileExists pr (lit ''Gemfile'') \<and> fileExists pr (lit ''config/application.rb'')
          then Inr (frameworkInfo (lit ''rails'') (JString (lit ''detected'')))
          else if fileExists pr (lit ''manage.py'') \<and> fileExists pr (lit ''requirements.txt'')
          then Inr (frameworkInfo (lit ''django'') (JString (lit ''detected'')))
          else then_do (checkExpress JSON_parse pr) (\<lambda>returned.
            case returned of
              Some info \<Rightarrow> Inr info
            | None \<Rightarrow> Inr (frameworkInfo (lit ''unknown'') JNull)))"

text \<open>
  \<open>detectFramework\<close>: the \<open>catch\<close> turns every error of the body into a result. The
  function is typed as one that may throw, so that it never does is a theorem.
\<close>

definition detectFramework :: "json_parser \<Rightarrow> project \<Rightarrow> js_error + jsvalue" where
  "detectFramework JSON_parse pr =
    (case detectFramework_try JSON_parse pr of
       Inr info \<Rightarrow> Inr info
     | Inl error \<Rightarrow>
         Inr (JObject [(lit ''type'', JString (lit ''unknown'')), (lit ''version'', JNull),
                       (lit ''error'', JString (message error))]))"

text \<open>
  The marker conditions of the four frameworks as the specification states them.
\<close>

definition laravelMarkers :: "project \<Rightarrow> bool" where
  "laravelMarkers pr \<longleftrightarrow>
     fileExists pr (lit ''artisan'') \<and> fileExists pr (lit ''composer.json'') \<and>
     (case readFile pr (lit ''composer.json'') of
        Inr composerContent \<Rightarrow> includes_str composerContent (lit ''laravel/framework'')
      | Inl e \<Rightarrow> False)"

definition railsMarkers :: "project \<Rightarrow> bool" where
  "railsMarkers pr \<longleftrightarrow> fileExists pr (lit ''Gemfile'') \<and> fileExists pr (lit ''config/application.rb'')"

definition djangoMarkers :: "project \<Rightarrow> bool" where
  "djangoMarkers pr \<longleftrightarrow> fileExists pr (lit ''manage.py'') \<and> fileExists pr (lit ''requirements.txt'')"

definition expressMarkers :: "json_parser \<Rightarrow> project \<Rightarrow> bool" where
  "expressMarkers JSON_parse pr \<longleftrightarrow>
     fileExists pr (lit ''package.json'') \<and>
     (case then_do (readFile pr (lit ''package.json'')) (\<lambda>packageContent.
             then_do (JSON_parse packageContent) expressDependency) of
        Inr found \<Rightarrow> truthy found
      | Inl e \<Rightarrow> False)"


section \<open>The auto-update advisor: \<open>shouldAutoUpdate\<close>\<close>

text \<open>
  The confidences of the source are the decimal literals 0, 0.1, 0.4, ..., 0.95. The
  source only compares them and takes their maximum, and on these literals the order
  of the doubles is the order of the decimals, so they are modelled as rationals.
\<close>

record update_recommendation =
  required :: bool
  reason :: jsstring
  confidence :: rat
  affectedSchemas :: "jsstring list"

record task_entry =
  task_schemas :: "jsstring list"
  task_confidence :: rat

text \<open>The object literal \<open>schemaAffectingTasks\<close>, as its list of own properties.\<close>

definition schemaAffectingTasks :: "(jsstring \<times> task_entry) list" where
  "schemaAffectingTasks =
    [(lit ''database'', \<lparr>task_schemas = [lit ''database''], task_confidence = 9/10\<rparr>),
     (lit ''migration'', \<lparr>task_schemas = [lit ''database''], task_confidence = 95/100\<rparr>),
     (lit ''model'',
        \<lparr>task_schemas = [lit ''database'', lit ''businessLogic''], task_confidence = 8/10\<rparr>),
     (lit ''controller'',
        \<lparr>task_schemas = [lit ''api'', lit ''businessLogic''], task_confidence = 8/10\<rparr>),
     (lit ''api'', \<lparr>task_schemas = [lit ''api''], task_confidence = 9/10\<rparr>),
     (lit ''route'', \<lparr>task_schemas = [lit ''api''], task_confidence = 9/10\<rparr>),
     (lit ''middleware'',
        \<lparr>task_schemas = [lit ''api'', lit ''businessLogic''], task_confidence = 7/10\<rparr>),
     (lit ''service'', \<lparr>task_schemas = [lit ''businessLogic''], task_confidence = 6/10\<rparr>),
     (lit ''config'',
        \<lparr>task_schemas = [lit ''componentArchitecture''], task_confidence = 5/10\<rparr>),
     (lit ''test'', \<lparr>task_schemas = [], task_confidence = 1/10\<rparr>)]"

text \<open>
  \<open>schemaAffectingTasks[taskType]\<close> is a property read on a plain object. A key that is not
  an own property is looked up in \<open>Object.prototype\<close>, whose twelve string-keyed
  properties are all truthy values (eleven functions and, for \<open>__proto__\<close>, the
  prototype object itself) without a \<open>schemas\<close> or \<open>confidence\<close> property.
\<close>

definition object_prototype_keys :: "jsstring list" where
  "object_prototype_keys =
    [lit ''constructor'', lit ''__defineGetter__'', lit ''__defineSetter__'',
     lit ''hasOwnProperty'', lit ''__lookupGetter__'', lit ''__lookupSetter__'',
     lit ''isPrototypeOf'', lit ''propertyIsEnumerable'', lit ''toString'',
     lit ''valueOf'', lit ''__proto__'', lit ''toLocaleString'']"

datatype task_lookup = Undefined | Own task_entry | Inherited

definition lookupTask :: "jsstring \<Rightarrow> task_lookup" where
  "lookupTask taskType =
    (case map_of schemaAffectingTasks taskType of
       Some task \<Rightarrow> Own task
     | None \<Rightarrow> if taskType \<in> set object_prototype_keys then Inherited else Undefined)"

text \<open>
  The patterns of \<open>schemaAffectingFiles\<close> are regular expressions without flags that are
  either a literal (\<open>/routes\<^bold>\/\<close>: the path contains the literal) or a literal followed by
  \<open>$\<close> (\<open>/composer\<^bold>\.json$/\<close>: the path ends with the literal).
\<close>

datatype pattern = Contains jsstring | AtEnd jsstring

fun test :: "pattern \<Rightarrow> jsstring \<Rightarrow> bool" where
  "test (Contains p) file = includes_str file p"
| "test (AtEnd p) file = endsWith file p"

record file_entry =
  pattern :: pattern
  file_schemas :: "jsstring list"
  file_confidence :: rat

definition schemaAffectingFiles :: "file_entry list" where
  "schemaAffectingFiles =
    [\<lparr>pattern = Contains (lit ''database/migrations/''),
        file_schemas = [lit ''database''], file_confidence = 95/100\<rparr>,
     \<lparr>pattern = Contains (lit ''app/Models/''),
        file_schemas = [lit ''database'', lit ''businessLogic''], file_confidence = 8/10\<rparr>,
     \<lparr>pattern = Contains (lit ''app/Http/Controllers/''),
        file_schemas = [lit ''api'', lit ''businessLogic''], file_confidence = 8/10\<rparr>,
     \<lparr>pattern = Contains (lit ''routes/''),
        file_schemas = [lit ''api''], file_confidence = 9/10\<rparr>,
     \<lparr>pattern = Contains (lit ''app/Http/Middleware/''),
        file_schemas = [lit ''api'', lit ''businessLogic''], file_confidence = 7/10\<rparr>,
     \<lparr>pattern = Contains (lit ''app/Services/''),
        file_schemas = [lit ''businessLogic''], file_confidence = 6/10\<rparr>,
     \<lparr>pattern = AtEnd (lit ''composer.json''),
        file_schemas = [lit ''componentArchitecture''], file_confidence = 6/10\<rparr>,
     \<lparr>pattern = Contains (lit ''config/''),
        file_schemas = [lit ''componentArchitecture''], file_confidence = 4/10\<rparr>]"

text \<open>
  The initial recommendation, and the one seeded from the task type. For an inherited
  property \<open>task.schemas\<close> is \<open>undefined\<close> and \<open>task.schemas.join\<close> throws.
\<close>

definition noChanges :: update_recommendation where
  "noChanges =
    \<lparr>required = False, reason = lit ''No schema-affecting changes detected'',
     confidence = 0, affectedSchemas = []\<rparr>"

definition checkTaskType :: "jsstring \<Rightarrow> js_error + update_recommendation" where
  "checkTaskType taskType =
    (case lookupTask taskType of
       Undefined \<Rightarrow> Inr noChanges
     | Own task \<Rightarrow>
         Inr \<lparr>required = task_confidence task > 5/10,
              reason = lit ''Task type '' @ [39] @ taskType @ [39] @ lit '' affects schemas: ''
                         @ join (lit '', '') (task_schemas task),
              confidence = task_confidence task,
              affectedSchemas = task_schemas task\<rparr>
     | Inherited \<Rightarrow>
         Inl (TypeError (lit ''Cannot read properties of undefined (reading '' @ [39] @ lit ''join'' @ [39] @ lit '')'')))"

text \<open>
  The loops over \<open>changedFiles\<close> and \<open>schemaAffectingFiles\<close>. The loop state is
  \<open>(maxConfidence, allAffectedSchemas, reasons)\<close>; the \<open>Set\<close> keeps its elements in the
  order of their first insertion, which is the order \<open>Array.from\<close> returns.
\<close>

definition set_add :: "'a list \<Rightarrow> 'a \<Rightarrow> 'a list" where
  "set_add s x = (if x \<in> set s then s else s @ [x])"

type_synonym scan_state = "rat \<times> jsstring list \<times> jsstring list"

definition checkPattern :: "jsstring \<Rightarrow> scan_state \<Rightarrow> file_entry \<Rightarrow> scan_state" where
  "checkPattern file st filePattern =
    (case st of (maxConfidence, allAffectedSchemas, reasons) \<Rightarrow>
       if test (pattern filePattern) file
       then (max maxConfidence (file_confidence filePattern),
             foldl set_add allAffectedSchemas (file_schemas filePattern),
             reasons @ [file @ lit '' affects '' @ join (lit '', '') (file_schemas filePattern)])
       else st)"

definition checkFile :: "scan_state \<Rightarrow> jsstring \<Rightarrow> scan_state" where
  "checkFile st file = foldl (checkPattern file) st schemaAffectingFiles"

definition checkChangedFiles :: "jsstring list \<Rightarrow> scan_state" where
  "checkChangedFiles changedFiles = foldl checkFile (0, [], []) changedFiles"

text \<open>
  \<open>shouldAutoUpdate(generator, taskType, changedFiles)\<close>; the source never reads
  \<open>generator\<close>.
\<close>

definition shouldAutoUpdate :: "jsstring \<Rightarrow> jsstring list \<Rightarrow> js_error + update_recommendation" where
  "shouldAutoUpdate taskType changedFiles =
    (case checkTaskType taskType of
       Inl e \<Rightarrow> Inl e
     | Inr updateRecommendation \<Rightarrow>
         if length changedFiles > 0 then
           (case checkChangedFiles changedFiles of
              (maxConfidence, allAffectedSchemas, reasons) \<Rightarrow>
                if maxConfidence > confidence updateRecommendation
                then Inr \<lparr>required = maxConfidence > 5/10,
                          reason = join (lit ''; '') reasons,
                          confidence = maxConfidence,
                          affectedSchemas = allAffectedSchemas\<rparr>
                else Inr updateRecommendation)
         else Inr updateRecommendation)"


text \<open>
  The file-derived evidence as the specification words it: the matches of the changed
  files against the rule table, in the order of the files and of the table; the maximum
  confidence over the matches (0 without a match); the union of the matched schema sets,
  each schema once, in the order of first occurrence; and one reason per match. The
  task-type-derived confidence is the confidence of the table entry, 0 without an entry.
\<close>

definition matched :: "jsstring list \<Rightarrow> (jsstring \<times> file_entry) list" where
  "matched changedFiles =
    concat (map (\<lambda>file. map (Pair file) (filter (\<lambda>fp. test (pattern fp) file) schemaAffectingFiles))
      changedFiles)"

definition maxFileConfidence :: "jsstring list \<Rightarrow> rat" where
  "maxFileConfidence changedFiles =
    Max (set (0 # map (\<lambda>(file, fp). file_confidence fp) (matched changedFiles)))"

definition fileSchemas :: "jsstring list \<Rightarrow> jsstring list" where
  "fileSchemas changedFiles =
    rev (remdups (rev (concat (map (\<lambda>(file, fp). file_schemas fp) (matched changedFiles)))))"

definition fileReasons :: "jsstring list \<Rightarrow> jsstring list" where
  "fileReasons changedFiles =
    map (\<lambda>(file, fp). file @ lit '' affects '' @ join (lit '', '') (file_schemas fp)) (matched changedFiles)"

definition taskTypeConfidence :: "jsstring \<Rightarrow> rat" where
  "taskTypeConfidence taskType =
    (case map_of schemaAffectingTasks taskType of Some task \<Rightarrow> task_confidence task | None \<Rightarrow> 0)"

definition hits :: "jsstring \<Rightarrow> file_entry list \<Rightarrow> file_entry list" where
  "hits file ps = filter (\<lambda>fp. test (pattern fp) file) ps"

definition reasonOf :: "jsstring \<Rightarrow> file_entry \<Rightarrow> jsstring" where
  "reasonOf file fp = file @ lit '' affects '' @ join (lit '', '') (file_schemas fp)"


text \<open>
  The value of \<open>require['laravel/framework']\<close> in a parsed \<open>composer.json\<close>, as the
  specification names it; \<open>undefined\<close> where the field is absent.
\<close>

definition requiredLaravel :: "jsvalue \<Rightarrow> jsvalue" where
  "requiredLaravel composer =
    (case composer of
       JObject ps \<Rightarrow>
         (case map_of ps (lit ''require'') of
            Some (JObject rs) \<Rightarrow>
              (case map_of rs (lit ''laravel/framework'') of Some v \<Rightarrow> v | None \<Rightarrow> JUndefined)
          | _ \<Rightarrow> JUndefined)
     | _ \<Rightarrow> JUndefined)"

text \<open>
  Example projects. \<open>composerJson v\<close> is the text
  \<^verbatim>\<open>{"require":{"laravel/framework":"v"}}\<close>, \<open>composerParsed v\<close> the value \<open>JSON.parse\<close>
  returns on it, and \<open>exampleParser\<close> is \<open>JSON.parse\<close> on the two texts used below.
  \<open>laravelProject composerContent\<close> holds the files \<open>artisan\<close> and \<open>composer.json\<close>, the latter with
  the given content; \<open>emptyProject\<close> holds nothing; \<open>unreadableProject\<close> holds \<open>artisan\<close> and a
  \<open>composer.json\<close> that cannot be read. \<open>unsearchableProject\<close> is a root that the process may
  not search: every \<open>fs.access\<close> and every \<open>fs.readFile\<close> rejects with EACCES.
  \<open>loopedProject\<close> holds a \<open>composer.json\<close> that requires \<open>laravel/framework\<close>, a
  \<open>package.json\<close> with the text \<^verbatim>\<open>{"dependencies":{"express":"^4.18.0"}}\<close>, and an
  \<open>artisan\<close> that is a symbolic link to itself, on which \<open>fs.access\<close> rejects with ELOOP;
  \<open>packageParser\<close> is \<open>JSON.parse\<close> on that \<open>package.json\<close>.
\<close>

definition quoted :: "jsstring \<Rightarrow> jsstring" where
  "quoted s = [34] @ s @ [34]"

definition composerJson :: "jsstring \<Rightarrow> jsstring" where
  "composerJson v =
     lit ''{'' @ quoted (lit ''require'') @ lit '':{'' @ quoted (lit ''laravel/framework'')
       @ lit '':'' @ quoted v @ lit ''}}''"

definition composerParsed :: "jsstring \<Rightarrow> jsvalue" where
  "composerParsed v =
     JObject [(lit ''require'', JObject [(lit ''laravel/framework'', JString v)])]"

definition exampleParser :: json_parser where
  "exampleParser s =
     (if s = composerJson (lit ''^10.0'') then Inr (composerParsed (lit ''^10.0''))
      else if s = composerJson [] then Inr (composerParsed [])
      else Inl (SyntaxError (lit ''Unexpected token'')))"

definition enoent :: js_error where
  "enoent = SystemError (lit ''ENOENT: no such file or directory'')"


definition laravelProject :: "jsstring \<Rightarrow> project" where
  "laravelProject composerContent =
     \<lparr>access = (\<lambda>p. if p = lit ''artisan'' \<or> p = lit ''composer.json'' then None else Some enoent),
      readFile = (\<lambda>p. if p = lit ''composer.json'' then Inr composerContent else Inl enoent)\<rparr>"

definition emptyProject :: project where
  "emptyProject = \<lparr>access = (\<lambda>p. Some enoent), readFile = (\<lambda>p. Inl enoent)\<rparr>"









section \<open>The structural scanner: \<open>scanDirectory\<close>\<close>

text \<open>
  What the scanner observes of a directory tree. Of a regular file: the text that
  \<open>fs.readFile(path, 'utf8')\<close> decodes, and the size in bytes and modification time that
  \<open>fs.stat\<close> reports; or the error of whichever call fails. Of a directory: that
  \<open>fs.access\<close> fails, that \<open>fs.readdir\<close> throws, or the entries with their names and
  kinds. \<open>Other\<close> is an entry that is neither a file nor a directory to \<open>Dirent\<close> (a
  symbolic link, a socket).
\<close>

record file_data =
  utf8_text :: jsstring
  size_on_disk :: nat
  mtime :: int

datatype node = File "js_error + file_data" | Subdir dir | Other
and dir = Absent | ReaddirFails js_error | Entries "(jsstring \<times> node) list"

text \<open>
  The result of a scan: the object \<open>files\<close>, whose properties are file records, error
  objects \<open>{error: message}\<close> and the objects of the subdirectories; the \<open>catch\<close> of
  \<open>scanDirectory\<close> returns an error object as well. \<open>keyCount\<close> is
  \<open>Object.keys(...).length\<close>. The field \<open>size\<close> of the source is \<open>size_rec\<close> here. The
  list of an object is in the order of insertion; JavaScript enumerates keys that are
  array indices first, and nothing stated below depends on the order of the names.
\<close>

record file_record =
  path :: jsstring
  size_rec :: nat
  lastModified :: int
  content :: jsstring

datatype scan_result =
    FileRecord file_record
  | ErrorObject jsstring
  | Listing "(jsstring \<times> scan_result) list"

fun keyCount :: "scan_result \<Rightarrow> nat" where
  "keyCount (Listing files) = length files"
| "keyCount (ErrorObject m) = 1"
| "keyCount (FileRecord r) = 4"

text \<open>
  \<open>path.join(dirPath, name)\<close>, and \<open>path.relative(projectRoot, filePath)\<close> of the file
  path built from it, for a relative \<open>dirPath\<close> in normal form.
\<close>

definition path_join :: "jsstring \<Rightarrow> jsstring \<Rightarrow> jsstring" where
  "path_join dirPath name = dirPath @ lit ''/'' @ name"

text \<open>
  \<open>scanDirectory\<close> and its loop over the entries, which carries the object \<open>files\<close>.
\<close>

fun scanDirectory :: "jsstring \<Rightarrow> jsstring \<Rightarrow> dir \<Rightarrow> scan_result"
and scanEntries :: "jsstring \<Rightarrow> jsstring \<Rightarrow> (jsstring \<times> node) list \<Rightarrow>
      (jsstring \<times> scan_result) list \<Rightarrow> (jsstring \<times> scan_result) list" where
  "scanDirectory dirPath extension Absent = Listing []"
| "scanDirectory dirPath extension (ReaddirFails error) = ErrorObject (message error)"
| "scanDirectory dirPath extension (Entries entries) =
     Listing (scanEntries dirPath extension entries [])"
| "scanEntries dirPath extension [] files = files"
| "scanEntries dirPath extension ((name, File r) # entries) files =
     scanEntries dirPath extension entries
       (if extension = [] \<or> endsWith name extension
        then set_property files name
               (case r of
                  Inr d \<Rightarrow> FileRecord \<lparr>path = path_join dirPath name, size_rec = length (utf8_text d),
                                       lastModified = mtime d, content = take 5000 (utf8_text d)\<rparr>
                | Inl error \<Rightarrow> ErrorObject (message error))
        else files)"
| "scanEntries dirPath extension ((name, Subdir d) # entries) files =
     scanEntries dirPath extension entries
       (let subFiles = scanDirectory (path_join dirPath name) extension d
        in if keyCount subFiles > 0 then set_property files name subFiles else files)"
| "scanEntries dirPath extension ((name, Other) # entries) files =
     scanEntries dirPath extension entries files"

text \<open>
  The readable files of a tree with their paths, the records in a scan result, and the
  relation of a record to the file it was made from.
\<close>

fun files_of :: "jsstring \<Rightarrow> dir \<Rightarrow> (jsstring \<times> file_data) list"
and files_of_entries :: "jsstring \<Rightarrow> (jsstring \<times> node) list \<Rightarrow> (jsstring \<times> file_data) list" where
  "files_of dirPath Absent = []"
| "files_of dirPath (ReaddirFails error) = []"
| "files_of dirPath (Entries entries) = files_of_entries dirPath entries"
| "files_of_entries dirPath [] = []"
| "files_of_entries dirPath ((name, File (Inr d)) # entries) =
     (path_join dirPath name, d) # files_of_entries dirPath entries"
| "files_of_entries dirPath ((name, File (Inl error)) # entries) = files_of_entries dirPath entries"
| "files_of_entries dirPath ((name, Subdir d) # entries) =
     files_of (path_join dirPath name) d @ files_of_entries dirPath entries"
| "files_of_entries dirPath ((name, Other) # entries) = files_of_entries dirPath entries"

fun records_of :: "scan_result \<Rightarrow> file_record list" where
  "records_of (FileRecord r) = [r]"
| "records_of (ErrorObject m) = []"
| "records_of (Listing files) = concat (map (\<lambda>(name, v). records_of v) files)"

definition made_from :: "file_record \<Rightarrow> jsstring \<times> file_data \<Rightarrow> bool" where
  "made_from r f \<longleftrightarrow>
     path r = fst f \<and> size_rec r = length (utf8_text (snd f)) \<and> lastModified r = mtime (snd f)
     \<and> content r = take 5000 (utf8_text (snd f))"

text \<open>
  The number of bytes of the UTF-8 encoding of a text (a surrogate pair is two code units
  and four bytes), and example files: \<open>accentedFile\<close> holds the two bytes C3 A9, the
  letter e with acute accent; \<open>bigFile\<close> holds 6000 letters a.
\<close>

definition utf8_bytes :: "jsstring \<Rightarrow> nat" where
  "utf8_bytes s =
     sum_list (map (\<lambda>u. if u < 128 then 1 else if u < 2048 then 2
                          else if 55296 \<le> u \<and> u < 57344 then 2 else 3) s)"

definition accentedFile :: file_data where
  "accentedFile = \<lparr>utf8_text = [233], size_on_disk = 2, mtime = 0\<rparr>"

definition bigFile :: file_data where
  "bigFile = \<lparr>utf8_text = replicate 6000 97, size_on_disk = 6000, mtime = 0\<rparr>"

definition exampleTree :: dir where
  "exampleTree =
     Entries [(lit ''Big.php'', File (Inr bigFile)),
              (lit ''notes.txt'', File (Inr \<lparr>utf8_text = lit ''todo'', size_on_disk = 4, mtime = 0\<rparr>)),
              (lit ''Models'', Subdir (Entries [(lit ''e.php'', File (Inr accentedFile))]))]"

definition bigRecord :: file_record where
  "bigRecord =
     \<lparr>path = lit ''app/Big.php'', size_rec = 6000, lastModified = 0,
      content = replicate 5000 97\<rparr>"

definition accentedRecord :: file_record where
  "accentedRecord =
     \<lparr>path = lit ''app/Models/e.php'', size_rec = 1, lastModified = 0, content = [233]\<rparr>"


section \<open>The use-trait extractor: \<open>extractPhpTraits\<close>\<close>

text \<open>
  The code units that \<open>\s\<close> matches and \<open>trim()\<close> strips: the white space and line
  terminators of ECMAScript.
\<close>

definition is_space :: "nat \<Rightarrow> bool" where
  "is_space u \<longleftrightarrow>
     (9 \<le> u \<and> u \<le> 13) \<or> u = 32 \<or> u = 160 \<or> u = 5760 \<or> (8192 \<le> u \<and> u \<le> 8202)
     \<or> u = 8232 \<or> u = 8233 \<or> u = 8239 \<or> u = 8287 \<or> u = 12288 \<or> u = 65279"

definition trim :: "jsstring \<Rightarrow> jsstring" where
  "trim s = rev (dropWhile is_space (rev (dropWhile is_space s)))"

text \<open>
  \<open>content.match(/use\s+([^;]+);/g)\<close>. A match at a position is the literal \<open>use\<close>, a
  non-empty run of white space, a non-empty run of code units other than \<open>;\<close> and a
  \<open>;\<close>. White space is not \<open>;\<close>, so with backtracking there is a match at the position
  exactly when \<open>use\<close> is followed by a \<open>;\<close> later on and the text \<open>u\<close> between them starts with
  white space and has at least two code units; the match ends at that first \<open>;\<close>.
  \<open>match_use_at\<close> gives the matched text. The global search tries each position from the
  left and resumes after the end of a match: \<open>scan_uses\<close> carries the rest of the current
  match, which it steps over.
\<close>

definition match_use_at :: "jsstring \<Rightarrow> jsstring option" where
  "match_use_at s =
     (if startsWith s (lit ''use'')
      then (let t = drop 3 s;
                u = takeWhile (\<lambda>c. c \<noteq> 59) t
            in if dropWhile (\<lambda>c. c \<noteq> 59) t \<noteq> [] \<and> 2 \<le> length u \<and> is_space (hd u)
               then Some (lit ''use'' @ u @ [59])
               else None)
      else None)"

fun scan_uses :: "jsstring \<Rightarrow> jsstring \<Rightarrow> jsstring list" where
  "scan_uses covered [] = []"
| "scan_uses (m # covered) (c # cs) = scan_uses covered cs"
| "scan_uses [] (c # cs) =
     (case match_use_at (c # cs) of
        Some m \<Rightarrow> m # scan_uses (tl m) cs
      | None \<Rightarrow> scan_uses [] cs)"

definition match_uses :: "jsstring \<Rightarrow> jsstring list" where
  "match_uses phpContent = scan_uses [] phpContent"

text \<open>
  \<open>match.replace(/use\s+/, '')\<close> removes the leftmost \<open>use\<close> that is followed by white
  space, with all the white space after it; \<open>.replace(';', '')\<close> removes the first
  \<open>;\<close> (\<open>remove1\<close>); then \<open>.trim()\<close>. \<open>isTrait\<close> is the condition of the \<open>if\<close>, with
  \<open>'\\Http\\'\<close> the six code units of \<open>\Http\\<close> and \<open>'\\'\<close> the backslash, 92.
\<close>

fun remove_use :: "jsstring \<Rightarrow> jsstring" where
  "remove_use [] = []"
| "remove_use (c # cs) =
     (if startsWith (c # cs) (lit ''use'') \<and> drop 3 (c # cs) \<noteq> [] \<and> is_space (hd (drop 3 (c # cs)))
      then dropWhile is_space (drop 3 (c # cs))
      else c # remove_use cs)"

definition traitNameOf :: "jsstring \<Rightarrow> jsstring" where
  "traitNameOf m = trim (remove1 59 (remove_use m))"

definition isTrait :: "jsstring \<Rightarrow> bool" where
  "isTrait traitName \<longleftrightarrow>
     traitName \<noteq> [] \<and> \<not> includes_str traitName ([92] @ lit ''Http'' @ [92])
     \<and> \<not> includes_str traitName (lit ''function'') \<and> includes_str traitName [92]"

definition extractPhpTraits :: "jsstring \<Rightarrow> jsstring list" where
  "extractPhpTraits phpContent =
     foldl (\<lambda>traits m. let traitName = traitNameOf m
                        in if isTrait traitName then traits @ [traitName] else traits)
       [] (match_uses phpContent)"

text \<open>
  The targets of the \<open>use X;\<close> statements of a text, and an example source with three of
  them: a controller import, a trait, and an import without a namespace.
\<close>

definition useTargets :: "jsstring \<Rightarrow> jsstring list" where
  "useTargets phpContent = map traitNameOf (match_uses phpContent)"

definition controllerSource :: jsstring where
  "controllerSource =
     lit ''use App'' @ [92] @ lit ''Http'' @ [92] @ lit ''Controllers'' @ [92] @ lit ''Controller;''
     @ [10] @ lit ''use  App'' @ [92] @ lit ''Traits'' @ [92] @ lit ''HasRoles ;''
     @ [10] @ lit ''use Closure;''"

definition controllerTarget :: jsstring where
  "controllerTarget =
     lit ''App'' @ [92] @ lit ''Http'' @ [92] @ lit ''Controllers'' @ [92] @ lit ''Controller''"

definition hasRolesTarget :: jsstring where
  "hasRolesTarget = lit ''App'' @ [92] @ lit ''Traits'' @ [92] @ lit ''HasRoles''"


section \<open>Schema persistence: \<open>saveSchemas\<close>\<close>

text \<open>
  A YAML file as a reader sees it: \<open>fs.readFile\<close> throws (the file is missing or cannot be
  read), \<open>yaml.load\<close> throws (the text is not YAML), or \<open>yaml.load\<close> returns a value (an
  empty file loads as \<open>undefined\<close>). The serialiser is an external collaborator: a file
  written with the text \<open>yaml.dump(v)\<close> is taken to load as \<open>v\<close>.

  The store is what \<open>saveSchemas\<close> writes below the schema directory: the documents of
  \<open>current\<close> by file name, the snapshots of \<open>versions\<close> by version and file name, and the
  ledger \<open>history/changes.yml\<close>. \<open>fs_faults\<close> gives the error, if any, with which
  \<open>fs.mkdir\<close> or \<open>fs.writeFile\<close> fails on a path below the schema directory; the store
  after a failed save is not modelled.
\<close>

datatype yaml_file = ReadFails js_error | LoadFails js_error | Loads jsvalue

record store =
  currentDir :: "jsstring \<rightharpoonup> jsvalue"
  versionsDir :: "jsstring \<rightharpoonup> (jsstring \<rightharpoonup> jsvalue)"
  historyFile :: yaml_file

type_synonym fs_faults = "jsstring \<Rightarrow> js_error option"

definition fs_step :: "fs_faults \<Rightarrow> jsstring \<Rightarrow> 'a \<Rightarrow> js_error + 'a" where
  "fs_step faults p result = (case faults p of Some error \<Rightarrow> Inl error | None \<Rightarrow> Inr result)"

definition writeCurrent :: "fs_faults \<Rightarrow> jsstring \<Rightarrow> jsvalue \<Rightarrow> store \<Rightarrow> js_error + store" where
  "writeCurrent faults file doc st =
     fs_step faults (lit ''current/'' @ file)
       (st\<lparr>currentDir := (currentDir st)(file \<mapsto> doc)\<rparr>)"

definition writeVersion ::
    "fs_faults \<Rightarrow> jsstring \<Rightarrow> jsstring \<Rightarrow> jsvalue \<Rightarrow> store \<Rightarrow> js_error + store" where
  "writeVersion faults version file doc st =
     fs_step faults (lit ''versions/'' @ version @ lit ''/'' @ file)
       (st\<lparr>versionsDir := (versionsDir st)
              (version \<mapsto> (case versionsDir st version of
                                None \<Rightarrow> [file \<mapsto> doc]
                              | Some files \<Rightarrow> files(file \<mapsto> doc)))\<rparr>)"

text \<open>
  The loops ``Save current schemas'' and ``Save version'' over \<open>Object.entries(schemas)\<close>.
\<close>

fun saveCurrent :: "fs_faults \<Rightarrow> (jsstring \<times> jsvalue) list \<Rightarrow> store \<Rightarrow> js_error + store" where
  "saveCurrent faults [] st = Inr st"
| "saveCurrent faults ((name, schema) # entries) st =
     (if name \<noteq> lit ''metadata''
      then then_do (writeCurrent faults (name @ lit ''-schema.yml'') schema st)
             (saveCurrent faults entries)
      else saveCurrent faults entries st)"

fun saveVersion ::
    "fs_faults \<Rightarrow> jsstring \<Rightarrow> (jsstring \<times> jsvalue) list \<Rightarrow> store \<Rightarrow> js_error + store" where
  "saveVersion faults version [] st = Inr st"
| "saveVersion faults version ((name, schema) # entries) st =
     then_do (writeVersion faults version (name @ lit ''.yml'') schema st)
       (saveVersion faults version entries)"

text \<open>
  ``Log history'': the entry, with
  \<open>Object.keys(schemas).filter(key => key !== 'metadata')\<close> and
  \<open>schemas.metadata && schemas.metadata.framework\<close>; the read of the ledger, whose \<open>catch\<close>
  leaves \<open>history = []\<close> and whose \<open>|| []\<close> replaces a falsy document;
  \<open>history.unshift(historyEntry)\<close> and \<open>history.slice(0, 50)\<close>, which are methods of
  arrays only; and the write.
\<close>

definition schemaNames :: "(jsstring \<times> jsvalue) list \<Rightarrow> jsvalue" where
  "schemaNames schemas = JArray (map JString (filter (\<lambda>key. key \<noteq> lit ''metadata'') (map fst schemas)))"

definition historyEntry :: "jsstring \<Rightarrow> (jsstring \<times> jsvalue) list \<Rightarrow> js_error + jsvalue" where
  "historyEntry timestamp schemas =
     then_do (get (JObject schemas) (lit ''metadata'')) (\<lambda>metadata.
     then_do (js_and metadata (get metadata (lit ''framework''))) (\<lambda>framework.
       Inr (JObject [(lit ''timestamp'', JString timestamp),
                     (lit ''version'', JString (lit ''v'' @ timestamp)),
                     (lit ''framework'', framework),
                     (lit ''schemas'', schemaNames schemas),
                     (lit ''changeLog'', JString (lit ''Schema generation completed successfully''))])))"

definition readHistory :: "yaml_file \<Rightarrow> jsvalue" where
  "readHistory file =
     (case file of
        Loads existing \<Rightarrow> (if truthy existing then existing else JArray [])
      | ReadFails error \<Rightarrow> JArray []
      | LoadFails error \<Rightarrow> JArray [])"

fun unshift :: "jsvalue \<Rightarrow> jsvalue \<Rightarrow> js_error + jsvalue" where
  "unshift (JArray xs) x = Inr (JArray (x # xs))"
| "unshift v x = Inl (TypeError (lit ''history.unshift is not a function''))"

fun slice50 :: "jsvalue \<Rightarrow> js_error + jsvalue" where
  "slice50 (JArray xs) = Inr (JArray (take 50 xs))"
| "slice50 v = Inl (TypeError (lit ''history.slice is not a function''))"

definition logHistory ::
    "fs_faults \<Rightarrow> jsstring \<Rightarrow> (jsstring \<times> jsvalue) list \<Rightarrow> store \<Rightarrow> js_error + store" where
  "logHistory faults timestamp schemas st =
     then_do (historyEntry timestamp schemas) (\<lambda>entry.
     then_do (unshift (readHistory (historyFile st)) entry) (\<lambda>history.
     then_do (slice50 history) (\<lambda>history.
       fs_step faults (lit ''history/changes.yml'') (st\<lparr>historyFile := Loads history\<rparr>))))"

text \<open>
  \<open>saveSchemas(schemas)\<close>. \<open>timestamp\<close> is the reading of the clock,
  \<open>new Date().toISOString().replace(/[:.]/g, '-')\<close>.
\<close>

definition saveSchemas ::
    "fs_faults \<Rightarrow> jsstring \<Rightarrow> (jsstring \<times> jsvalue) list \<Rightarrow> store \<Rightarrow> js_error + store" where
  "saveSchemas faults timestamp schemas st =
     then_do (saveCurrent faults schemas st) (\<lambda>st.
     then_do (get (JObject schemas) (lit ''metadata'')) (\<lambda>metadata.
     then_do (writeCurrent faults (lit ''metadata.yml'') metadata st) (\<lambda>st.
     then_do (fs_step faults (lit ''versions/v'' @ timestamp) st) (\<lambda>st.
     then_do (saveVersion faults (lit ''v'' @ timestamp) schemas st) (\<lambda>st.
       logHistory faults timestamp schemas st)))))"

text \<open>Successive calls of \<open>saveSchemas\<close>, each with its timestamp and schemas.\<close>

fun saves :: "fs_faults \<Rightarrow> (jsstring \<times> (jsstring \<times> jsvalue) list) list \<Rightarrow> store \<Rightarrow> js_error + store" where
  "saves faults [] st = Inr st"
| "saves faults ((timestamp, schemas) # calls) st =
     then_do (saveSchemas faults timestamp schemas st) (saves faults calls)"

text \<open>
  The entries of the ledger as \<open>saveSchemas\<close> reads it (none when the file is missing,
  unparsable or holds no array), the entry that a call writes, a file system without
  faults, and an example: 51 calls on a store without a ledger.
\<close>

definition ledger :: "store \<Rightarrow> jsvalue list" where
  "ledger st = (case readHistory (historyFile st) of JArray entries \<Rightarrow> entries | _ \<Rightarrow> [])"

definition entryOf :: "jsstring \<times> (jsstring \<times> jsvalue) list \<Rightarrow> jsvalue" where
  "entryOf call = (case historyEntry (fst call) (snd call) of Inr entry \<Rightarrow> entry | Inl error \<Rightarrow> JUndefined)"

definition noFaults :: fs_faults where
  "noFaults p = None"

definition emptyStore :: store where
  "emptyStore = \<lparr>currentDir = Map.empty, versionsDir = Map.empty, historyFile = ReadFails enoent\<rparr>"

definition stamp :: "nat \<Rightarrow> jsstring" where
  "stamp i = lit ''2024-01-01T00-00-'' @ [48 + i div 10, 48 + i mod 10] @ lit ''-000Z''"

definition exampleSchemas :: "(jsstring \<times> jsvalue) list" where
  "exampleSchemas =
     [(lit ''database'', JObject [(lit ''type'', JString (lit ''database''))]),
      (lit ''metadata'', JObject [(lit ''framework'', frameworkInfo (lit ''unknown'') JNull)])]"

definition calls51 :: "(jsstring \<times> (jsstring \<times> jsvalue) list) list" where
  "calls51 = map (\<lambda>i. (stamp i, exampleSchemas)) [0..<51]"


section \<open>The schema assembler: \<open>generateSchemas\<close>\<close>

text \<open>
  What a generation run depends on: the faults of the file system, the project root as
  the detector sees it, \<open>JSON.parse\<close>, and the project root's path. The four Laravel
  generators scan the project and run \<open>php artisan\<close>; what each of them gives in this
  project, a document or an error, is a parameter.
\<close>

record world =
  disk_faults :: fs_faults
  project_files :: project
  JSON_parse_of :: json_parser
  laravelDatabaseSchema :: "js_error + jsvalue"
  laravelApiSchema :: "js_error + jsvalue"
  laravelBusinessLogicSchema :: "js_error + jsvalue"
  laravelComponentSchema :: "js_error + jsvalue"
  projectRoot :: jsstring

definition ensureDirectories :: "fs_faults \<Rightarrow> js_error + unit" where
  "ensureDirectories faults =
     then_do (fs_step faults [] ()) (\<lambda>u.
     then_do (fs_step faults (lit ''current'') ()) (\<lambda>u.
     then_do (fs_step faults (lit ''versions'') ()) (\<lambda>u.
       fs_step faults (lit ''history'') ())))"

definition generateLaravelSchemas :: "world \<Rightarrow> js_error + (jsstring \<times> jsvalue) list" where
  "generateLaravelSchemas w =
     then_do (laravelDatabaseSchema w) (\<lambda>database.
     then_do (laravelApiSchema w) (\<lambda>api.
     then_do (laravelBusinessLogicSchema w) (\<lambda>businessLogic.
     then_do (laravelComponentSchema w) (\<lambda>componentArchitecture.
       Inr [(lit ''database'', database), (lit ''api'', api),
            (lit ''businessLogic'', businessLogic),
            (lit ''componentArchitecture'', componentArchitecture)]))))"

text \<open>
  The placeholder documents \<open>{type, framework, note}\<close> of the generators for Rails, Django,
  Express and an unknown framework.
\<close>

definition pending :: "jsstring \<Rightarrow> jsstring \<Rightarrow> jsstring \<Rightarrow> jsvalue" where
  "pending t fw note =
     JObject [(lit ''type'', JString t), (lit ''framework'', JString fw), (lit ''note'', JString note)]"

definition generateRailsSchemas :: "(jsstring \<times> jsvalue) list" where
  "generateRailsSchemas =
     [(lit ''database'', pending (lit ''database'') (lit ''rails'')
         (lit ''Rails schema generation implementation pending'')),
      (lit ''api'', pending (lit ''api'') (lit ''rails'')
         (lit ''Rails API schema generation implementation pending'')),
      (lit ''businessLogic'', pending (lit ''business_logic'') (lit ''rails'')
         (lit ''Rails business logic schema generation implementation pending'')),
      (lit ''componentArchitecture'', pending (lit ''component_architecture'') (lit ''rails'')
         (lit ''Rails component schema generation implementation pending''))]"

definition generateDjangoSchemas :: "(jsstring \<times> jsvalue) list" where
  "generateDjangoSchemas =
     [(lit ''database'', pending (lit ''database'') (lit ''django'')
         (lit ''Django schema generation implementation pending'')),
      (lit ''api'', pending (lit ''api'') (lit ''django'')
         (lit ''Django API schema generation implementation pending'')),
      (lit ''businessLogic'', pending (lit ''business_logic'') (lit ''django'')
         (lit ''Django business logic schema generation implementation pending'')),
      (lit ''componentArchitecture'', pending (lit ''component_architecture'') (lit ''django'')
         (lit ''Django component schema generation implementation pending''))]"

definition generateExpressSchemas :: "(jsstring \<times> jsvalue) list" where
  "generateExpressSchemas =
     [(lit ''database'', pending (lit ''database'') (lit ''express'')
         (lit ''Express schema generation implementation pending'')),
      (lit ''api'', pending (lit ''api'') (lit ''express'')
         (lit ''Express API schema generation implementation pending'')),
      (lit ''businessLogic'', pending (lit ''business_logic'') (lit ''express'')
         (lit ''Express business logic schema generation implementation pending'')),
      (lit ''componentArchitecture'', pending (lit ''component_architecture'') (lit ''express'')
         (lit ''Express component schema generation implementation pending''))]"

definition generateGenericSchemas :: "(jsstring \<times> jsvalue) list" where
  "generateGenericSchemas =
     [(lit ''database'', pending (lit ''database'') (lit ''unknown'')
         (lit ''Framework-agnostic schema generation implementation pending'')),
      (lit ''api'', pending (lit ''api'') (lit ''unknown'')
         (lit ''Framework-agnostic API schema generation implementation pending'')),
      (lit ''businessLogic'', pending (lit ''business_logic'') (lit ''unknown'')
         (lit ''Framework-agnostic business logic schema generation implementation pending'')),
      (lit ''componentArchitecture'', pending (lit ''component_architecture'') (lit ''unknown'')
         (lit ''Framework-agnostic component schema generation implementation pending''))]"

text \<open>
  The \<open>switch (detectedFramework.type)\<close>, the metadata, and the schema set that
  \<open>generateSchemas\<close> hands to \<open>saveSchemas\<close>: \<open>assembleSchemas\<close> gives the detected
  framework and the object \<open>schemas\<close> after \<open>schemas.metadata = ...\<close>. \<open>framework\<close> is the
  optional override (\<open>null\<close> without one), \<open>timestamp\<close> the clock read by
  \<open>generateSchemas\<close> and \<open>saveTimestamp\<close> the one read by \<open>saveSchemas\<close>.
\<close>

definition dispatch :: "world \<Rightarrow> jsvalue \<Rightarrow> js_error + (jsstring \<times> jsvalue) list" where
  "dispatch w t =
     (if t = JString (lit ''laravel'') then generateLaravelSchemas w
      else if t = JString (lit ''rails'') then Inr generateRailsSchemas
      else if t = JString (lit ''django'') then Inr generateDjangoSchemas
      else if t = JString (lit ''express'') then Inr generateExpressSchemas
      else Inr generateGenericSchemas)"

definition metadataOf :: "world \<Rightarrow> jsvalue \<Rightarrow> jsstring \<Rightarrow> jsvalue" where
  "metadataOf w detectedFramework timestamp =
     JObject [(lit ''framework'', detectedFramework),
              (lit ''generatedAt'', JString timestamp),
              (lit ''version'', JString (lit ''1.0.0'')),
              (lit ''projectRoot'', JString (projectRoot w))]"

definition assembleSchemas ::
    "world \<Rightarrow> jsvalue \<Rightarrow> jsstring \<Rightarrow> js_error + jsvalue \<times> (jsstring \<times> jsvalue) list" where
  "assembleSchemas w framework timestamp =
     then_do (js_or framework (detectFramework (JSON_parse_of w) (project_files w))) (\<lambda>detectedFramework.
     then_do (get detectedFramework (lit ''type'')) (\<lambda>t.
     then_do (dispatch w t) (\<lambda>schemas.
       Inr (detectedFramework,
            set_property schemas (lit ''metadata'') (metadataOf w detectedFramework timestamp)))))"

definition generateSchemas ::
    "world \<Rightarrow> jsvalue \<Rightarrow> jsstring \<Rightarrow> jsstring \<Rightarrow> store \<Rightarrow> js_error + jsvalue \<times> store" where
  "generateSchemas w framework timestamp saveTimestamp st =
     then_do (ensureDirectories (disk_faults w)) (\<lambda>u.
     then_do (assembleSchemas w framework timestamp) (\<lambda>(detectedFramework, schemas).
     then_do (saveSchemas (disk_faults w) saveTimestamp schemas st) (\<lambda>st.
       Inr (JObject [(lit ''success'', JBool True),
                     (lit ''framework'', detectedFramework),
                     (lit ''schemas'', schemaNames schemas),
                     (lit ''timestamp'', JString timestamp),
                     (lit ''location'',
                        JString (projectRoot w @ lit ''/.taskmaster/schemas/current''))],
            st))))"

text \<open>
  The four schema names, and an example: a project root without marker files on a file
  system without faults.
\<close>

definition schemaKeys :: "jsstring list" where
  "schemaKeys = [lit ''database'', lit ''api'', lit ''businessLogic'', lit ''componentArchitecture'']"

definition bareWorld :: world where
  "bareWorld =
     \<lparr>disk_faults = noFaults, project_files = emptyProject, JSON_parse_of = exampleParser,
      laravelDatabaseSchema = Inl enoent, laravelApiSchema = Inl enoent,
      laravelBusinessLogicSchema = Inl enoent, laravelComponentSchema = Inl enoent,
      projectRoot = lit ''/srv/app''\<rparr>"

text \<open>
  A Laravel project on a file system without faults, in which each of the four Laravel
  generators gives a document (here the document \<open>{type: name}\<close>).
\<close>

definition typed :: "jsstring \<Rightarrow> jsvalue" where
  "typed name = JObject [(lit ''type'', JString name)]"

definition laravelWorld :: world where
  "laravelWorld =
     \<lparr>disk_faults = noFaults,
      project_files = laravelProject (composerJson (lit ''^10.0'')),
      JSON_parse_of = exampleParser,
      laravelDatabaseSchema = Inr (typed (lit ''database'')),
      laravelApiSchema = Inr (typed (lit ''api'')),
      laravelBusinessLogicSchema = Inr (typed (lit ''business_logic'')),
      laravelComponentSchema = Inr (typed (lit ''component_architecture'')),
      projectRoot = lit ''/srv/app''\<rparr>"


section \<open>Schema information and freshness: \<open>getSchemaInfo\<close>, \<open>checkFreshness\<close>\<close>

text \<open>
  What \<open>getSchemaInfo\<close> observes of the schema directory: the file
  \<open>current/metadata.yml\<close>, and what \<open>fs.readdir\<close> gives on the directories \<open>versions\<close> and
  \<open>current\<close>, a list of names or an error.
\<close>

record schema_files =
  metadata_yml :: yaml_file
  readdir_versions :: "js_error + jsstring list"
  readdir_current :: "js_error + jsstring list"
  schemaDirPath :: jsstring

definition readYaml :: "yaml_file \<Rightarrow> js_error + jsvalue" where
  "readYaml file =
     (case file of ReadFails error \<Rightarrow> Inl error | LoadFails error \<Rightarrow> Inl error | Loads v \<Rightarrow> Inr v)"

text \<open>
  \<open>listSchemaVersions\<close>: \<open>versions.sort().reverse()\<close>, or \<open>[]\<close> from the \<open>catch\<close>. The default
  order of \<open>sort()\<close> is the lexicographic order of the code units, the order of lists.
\<close>

definition listSchemaVersions :: "schema_files \<Rightarrow> jsstring list" where
  "listSchemaVersions env =
     (case readdir_versions env of
        Inr versions \<Rightarrow> rev (sort versions)
      | Inl error \<Rightarrow> [])"

text \<open>
  \<open>file.replace('-schema.yml', '')\<close> removes the first occurrence of the pattern.
  \<open>getSchemaInfo_try\<close> is the body of the \<open>try\<close> block of \<open>getSchemaInfo\<close>.
\<close>

fun remove_first_sub :: "jsstring \<Rightarrow> jsstring \<Rightarrow> jsstring" where
  "remove_first_sub p [] = []"
| "remove_first_sub p (c # cs) =
     (if startsWith (c # cs) p then drop (length p) (c # cs) else c # remove_first_sub p cs)"

definition getSchemaInfo_try :: "schema_files \<Rightarrow> js_error + jsvalue" where
  "getSchemaInfo_try env =
     then_do (readYaml (metadata_yml env)) (\<lambda>metadata.
       let versions = listSchemaVersions env
       in then_do (readdir_current env) (\<lambda>files.
            let availableSchemas =
                  map (remove_first_sub (lit ''-schema.yml''))
                    (filter (\<lambda>file. endsWith file (lit ''-schema.yml'')) files)
            in Inr (JObject [(lit ''success'', JBool True),
                             (lit ''current'', metadata),
                             (lit ''availableSchemas'', JArray (map JString availableSchemas)),
                             (lit ''versions'', JArray (map JString (take 10 versions))),
                             (lit ''location'', JString (schemaDirPath env))])))"

definition getSchemaInfo :: "schema_files \<Rightarrow> js_error + jsvalue" where
  "getSchemaInfo env =
     (case getSchemaInfo_try env of
        Inr info \<Rightarrow> Inr info
      | Inl error \<Rightarrow>
          Inr (JObject [(lit ''success'', JBool False),
                        (lit ''error'', JString (message error)),
                        (lit ''location'', JString (schemaDirPath env))]))"

text \<open>The names in the versions archive; none when the directory cannot be listed.\<close>

definition versionNames :: "schema_files \<Rightarrow> jsstring list" where
  "versionNames env = (case readdir_versions env of Inr names \<Rightarrow> names | Inl error \<Rightarrow> [])"








definition schemaFiles :: "yaml_file \<Rightarrow> schema_files" where
  "schemaFiles metadata =
     \<lparr>metadata_yml = metadata,
      readdir_versions = Inr (map (\<lambda>i. lit ''v'' @ stamp i) [0..<12]),
      readdir_current = Inr [lit ''database-schema.yml'', lit ''metadata.yml''],
      schemaDirPath = lit ''/srv/app/.taskmaster/schemas''\<rparr>"

definition exampleMetadata :: jsvalue where
  "exampleMetadata = JObject [(lit ''generatedAt'', JDate 1700000000000)]"




section \<open>Verified properties\<close>

subsection \<open>The auto-update advisor\<close>

lemma remdups_snoc: "remdups (zs @ [x]) = remdups (filter (\<lambda>y. y \<noteq> x) zs) @ [x]"
  by (induction zs) auto

lemma foldl_set_add: "foldl set_add s xs = s @ rev (remdups (rev (filter (\<lambda>x. x \<notin> set s) xs)))"
proof (induction xs arbitrary: s)
  case Nil
  then show ?case by simp
next
  case (Cons x xs)
  show ?case
  proof (cases "x \<in> set s")
    case True
    then show ?thesis using Cons.IH[of s] by (simp add: set_add_def)
  next
    case False
    have f: "filter (\<lambda>y. y \<notin> set (s @ [x])) xs = filter (\<lambda>y. y \<noteq> x) (filter (\<lambda>y. y \<notin> set s) xs)"
      by (induction xs) auto
    have "foldl set_add s (x # xs) = foldl set_add (s @ [x]) xs"
      using False by (simp add: set_add_def)
    also have "\<dots> = (s @ [x]) @ rev (remdups (rev (filter (\<lambda>y. y \<noteq> x) (filter (\<lambda>y. y \<notin> set s) xs))))"
      unfolding Cons.IH[of "s @ [x]"] f ..
    also have "\<dots> = s @ rev (remdups (rev (filter (\<lambda>y. y \<notin> set s) xs) @ [x]))"
      unfolding remdups_snoc by (simp add: rev_filter)
    also have "\<dots> = s @ rev (remdups (rev (filter (\<lambda>y. y \<notin> set s) (x # xs))))"
      using False by simp
    finally show ?thesis .
  qed
qed

lemma foldl_max: "foldl max (m::rat) xs = Max (set (m # xs))"
proof (induction xs arbitrary: m)
  case Nil
  then show ?case by simp
next
  case (Cons x xs)
  have "Max (set (max m x # xs)) = Max (set (m # x # xs))"
    by (cases "xs = []") (simp_all add: max.assoc)
  then show ?case using Cons.IH[of "max m x"] by simp
qed

lemma foldl_checkPattern:
  "foldl (checkPattern file) (m, s, r) ps =
     (foldl max m (map file_confidence (hits file ps)),
      foldl set_add s (concat (map file_schemas (hits file ps))),
      r @ map (reasonOf file) (hits file ps))"
  by (induction ps arbitrary: m s r) (simp_all add: checkPattern_def hits_def reasonOf_def)

lemma foldl_checkFile:
  "foldl checkFile (m, s, r) cf =
     (foldl max m (map (\<lambda>(file, fp). file_confidence fp) (matched cf)),
      foldl set_add s (concat (map (\<lambda>(file, fp). file_schemas fp) (matched cf))),
      r @ map (\<lambda>(file, fp). reasonOf file fp) (matched cf))"
proof (induction cf arbitrary: m s r)
  case Nil
  then show ?case by (simp add: matched_def)
next
  case (Cons f cf)
  have m: "matched (f # cf) = map (Pair f) (hits f schemaAffectingFiles) @ matched cf"
    by (simp add: matched_def hits_def)
  have c: "checkFile (m, s, r) f =
     (foldl max m (map file_confidence (hits f schemaAffectingFiles)),
      foldl set_add s (concat (map file_schemas (hits f schemaAffectingFiles))),
      r @ map (reasonOf f) (hits f schemaAffectingFiles))"
    by (simp add: checkFile_def foldl_checkPattern)
  show ?case
    by (simp add: c Cons.IH m comp_def)
qed

lemma checkChangedFiles_eq:
  "checkChangedFiles cf = (maxFileConfidence cf, fileSchemas cf, fileReasons cf)"
  by (simp add: checkChangedFiles_def foldl_checkFile foldl_max foldl_set_add
      maxFileConfidence_def fileSchemas_def fileReasons_def reasonOf_def)


lemma taskTypeConfidence_nonneg: "0 \<le> taskTypeConfidence taskType"
  by (simp add: taskTypeConfidence_def schemaAffectingTasks_def)

lemma set_fileSchemas:
  "set (fileSchemas changedFiles) = (\<Union>(file, fp) \<in> set (matched changedFiles). set (file_schemas fp))"
  by (auto simp: fileSchemas_def)

lemma checkTaskType_confidence:
  "taskType \<notin> set object_prototype_keys \<Longrightarrow>
     \<exists>r. checkTaskType taskType = Inr r \<and> confidence r = taskTypeConfidence taskType"
  by (auto simp: checkTaskType_def lookupTask_def taskTypeConfidence_def noChanges_def
      split: option.splits)

lemma matched_Nil_iff:
  "matched changedFiles = [] \<longleftrightarrow>
     (\<forall>file \<in> set changedFiles. \<forall>fp \<in> set schemaAffectingFiles. \<not> test (pattern fp) file)"
  by (auto simp: matched_def filter_empty_conv)

text \<open>
  The replacement law where the task type is read from the table itself, that is, for
  every task type but the twelve property names a plain object inherits: if the maximum
  confidence of the changed files against the rule table exceeds the confidence of the
  task type's table entry, \<open>shouldAutoUpdate\<close> returns exactly the file-derived
  recommendation: one reason per matched file and rule, the maximum confidence, the union
  of the matched schema sets, \<open>required\<close> iff that confidence exceeds 0.5; no field
  depends on the task type. If the task type has no entry and no changed file matches a
  rule, the result is the default recommendation.
\<close>

lemma shouldAutoUpdate_table_lookup:
  assumes "taskType \<notin> set object_prototype_keys"
  shows "(taskTypeConfidence taskType < maxFileConfidence changedFiles \<longrightarrow>
            shouldAutoUpdate taskType changedFiles =
              Inr \<lparr>required = maxFileConfidence changedFiles > 5/10,
                   reason = join (lit ''; '') (fileReasons changedFiles),
                   confidence = maxFileConfidence changedFiles,
                   affectedSchemas = fileSchemas changedFiles\<rparr>)
       \<and> set (fileSchemas changedFiles) =
            (\<Union>(file, fp) \<in> set (matched changedFiles). set (file_schemas fp))
       \<and> distinct (fileSchemas changedFiles)
       \<and> (map_of schemaAffectingTasks taskType = None
            \<and> (\<forall>file \<in> set changedFiles. \<forall>fp \<in> set schemaAffectingFiles.
                  \<not> test (pattern fp) file) \<longrightarrow>
            shouldAutoUpdate taskType changedFiles =
              Inr \<lparr>required = False, reason = lit ''No schema-affecting changes detected'',
                   confidence = 0, affectedSchemas = []\<rparr>)"
proof -
  obtain r where r: "checkTaskType taskType = Inr r" "confidence r = taskTypeConfidence taskType"
    using checkTaskType_confidence[OF assms] by blast
  have a: "taskTypeConfidence taskType < maxFileConfidence changedFiles \<longrightarrow>
            shouldAutoUpdate taskType changedFiles =
              Inr \<lparr>required = maxFileConfidence changedFiles > 5/10,
                   reason = join (lit ''; '') (fileReasons changedFiles),
                   confidence = maxFileConfidence changedFiles,
                   affectedSchemas = fileSchemas changedFiles\<rparr>"
  proof
    assume lt: "taskTypeConfidence taskType < maxFileConfidence changedFiles"
    have "changedFiles \<noteq> []"
    proof
      assume "changedFiles = []"
      then have "maxFileConfidence changedFiles = 0"
        by (simp add: maxFileConfidence_def matched_def)
      with lt taskTypeConfidence_nonneg[of taskType] show False by simp
    qed
    then show "shouldAutoUpdate taskType changedFiles =
              Inr \<lparr>required = maxFileConfidence changedFiles > 5/10,
                   reason = join (lit ''; '') (fileReasons changedFiles),
                   confidence = maxFileConfidence changedFiles,
                   affectedSchemas = fileSchemas changedFiles\<rparr>"
      using lt r by (simp add: shouldAutoUpdate_def checkChangedFiles_eq)
  qed
  have d: "distinct (fileSchemas changedFiles)"
    by (simp add: fileSchemas_def)
  have b: "map_of schemaAffectingTasks taskType = None
            \<and> (\<forall>file \<in> set changedFiles. \<forall>fp \<in> set schemaAffectingFiles.
                  \<not> test (pattern fp) file) \<longrightarrow>
            shouldAutoUpdate taskType changedFiles =
              Inr \<lparr>required = False, reason = lit ''No schema-affecting changes detected'',
                   confidence = 0, affectedSchemas = []\<rparr>"
  proof
    assume h: "map_of schemaAffectingTasks taskType = None
            \<and> (\<forall>file \<in> set changedFiles. \<forall>fp \<in> set schemaAffectingFiles.
                  \<not> test (pattern fp) file)"
    then have m: "matched changedFiles = []"
      by (simp add: matched_Nil_iff)
    have t: "checkTaskType taskType = Inr noChanges"
      using h assms by (simp add: checkTaskType_def lookupTask_def)
    have "maxFileConfidence changedFiles = 0"
      by (simp add: maxFileConfidence_def m)
    then show "shouldAutoUpdate taskType changedFiles =
              Inr \<lparr>required = False, reason = lit ''No schema-affecting changes detected'',
                   confidence = 0, affectedSchemas = []\<rparr>"
      using t by (simp add: shouldAutoUpdate_def checkChangedFiles_eq noChanges_def)
  qed
  from a set_fileSchemas d b show ?thesis by blast
qed

lemma shouldAutoUpdate_table_lookup_example:
  "shouldAutoUpdate (lit ''other'') [lit ''database/migrations/2024_01_01_create_x.php''] =
     Inr \<lparr>required = True,
          reason = lit ''database/migrations/2024_01_01_create_x.php affects database'',
          confidence = 95/100, affectedSchemas = [lit ''database'']\<rparr>
   \<and> shouldAutoUpdate (lit ''frontend'') [lit ''README.md''] =
     Inr \<lparr>required = False, reason = lit ''No schema-affecting changes detected'',
          confidence = 0, affectedSchemas = []\<rparr>"
proof -
  let ?f = "lit ''database/migrations/2024_01_01_create_x.php''"
  have p1: "lit ''other'' \<notin> set object_prototype_keys"
    by (simp add: object_prototype_keys_def lit_def)
  have p2: "lit ''frontend'' \<notin> set object_prototype_keys"
    by (simp add: object_prototype_keys_def lit_def)
  have m1: "matched [?f] = [(?f, schemaAffectingFiles ! 0)]"
    by (simp add: matched_def schemaAffectingFiles_def endsWith_def lit_def)
  have c1: "maxFileConfidence [?f] = 95/100"
    by (simp add: maxFileConfidence_def m1 schemaAffectingFiles_def)
  have t1: "taskTypeConfidence (lit ''other'') = 0"
    by (simp add: taskTypeConfidence_def schemaAffectingTasks_def lit_def)
  have r1: "join (lit ''; '') (fileReasons [?f]) =
      lit ''database/migrations/2024_01_01_create_x.php affects database''"
    unfolding fileReasons_def m1 by (simp add: schemaAffectingFiles_def lit_def)
  have s1: "fileSchemas [?f] = [lit ''database'']"
    unfolding fileSchemas_def m1 by (simp add: schemaAffectingFiles_def)
  have n2: "map_of schemaAffectingTasks (lit ''frontend'') = None"
    by (simp add: schemaAffectingTasks_def lit_def)
  have q2: "\<forall>file \<in> set [lit ''README.md'']. \<forall>fp \<in> set schemaAffectingFiles.
                  \<not> test (pattern fp) file"
    by (simp add: schemaAffectingFiles_def endsWith_def lit_def)
  show ?thesis
    using shouldAutoUpdate_table_lookup[OF p1, of "[?f]"]
      shouldAutoUpdate_table_lookup[OF p2, of "[lit ''README.md'']"] n2 q2
    by (simp add: c1 t1 r1 s1)
qed

lemma shouldAutoUpdate_inherited:
  assumes "taskType \<in> set object_prototype_keys"
  shows "shouldAutoUpdate taskType changedFiles =
     Inl (TypeError (lit ''Cannot read properties of undefined (reading ''
            @ [39] @ lit ''join'' @ [39] @ lit '')''))"
proof -
  have "\<forall>k \<in> set object_prototype_keys. map_of schemaAffectingTasks k = None"
    by (simp add: object_prototype_keys_def schemaAffectingTasks_def lit_def)
  with assms have "lookupTask taskType = Inherited"
    by (simp add: lookupTask_def)
  then show ?thesis
    by (simp add: shouldAutoUpdate_def checkTaskType_def)
qed

text \<open>
  C1. The claim fails on a task type that names a property which the plain object
  \<open>schemaAffectingTasks\<close> inherits. The task type \<open>constructor\<close> has no entry in the table,
  so its task-type confidence is 0. With the changed file \<open>routes/web.php\<close>, which matches
  the rule \<open>routes/\<close> of confidence 0.9, the claim gives the file-derived recommendation
  \<open>{required: true, reason: 'routes/web.php affects api', confidence: 0.9,
  affectedSchemas: ['api']}\<close>; with no changed file nothing matches and the claim gives the
  default recommendation. On both inputs \<open>schemaAffectingTasks[taskType]\<close> is the function
  \<open>Object.prototype.constructor\<close>, which is truthy and has no \<open>schemas\<close>, and
  \<open>task.schemas.join\<close> throws a \<open>TypeError\<close>: \<open>shouldAutoUpdate\<close> returns no recommendation.
\<close>

theorem shouldAutoUpdate_inherited_key:
  "map_of schemaAffectingTasks (lit ''constructor'') = None
   \<and> taskTypeConfidence (lit ''constructor'') = 0
   \<and> maxFileConfidence [lit ''routes/web.php''] = 9/10
   \<and> join (lit ''; '') (fileReasons [lit ''routes/web.php'']) = lit ''routes/web.php affects api''
   \<and> fileSchemas [lit ''routes/web.php''] = [lit ''api'']
   \<and> shouldAutoUpdate (lit ''constructor'') [lit ''routes/web.php''] =
       Inl (TypeError (lit ''Cannot read properties of undefined (reading ''
              @ [39] @ lit ''join'' @ [39] @ lit '')''))
   \<and> shouldAutoUpdate (lit ''constructor'') [lit ''routes/web.php''] \<noteq>
       Inr \<lparr>required = True, reason = lit ''routes/web.php affects api'',
            confidence = 9/10, affectedSchemas = [lit ''api'']\<rparr>
   \<and> matched [] = []
   \<and> shouldAutoUpdate (lit ''constructor'') [] =
       Inl (TypeError (lit ''Cannot read properties of undefined (reading ''
              @ [39] @ lit ''join'' @ [39] @ lit '')''))
   \<and> shouldAutoUpdate (lit ''constructor'') [] \<noteq>
       Inr \<lparr>required = False, reason = lit ''No schema-affecting changes detected'',
            confidence = 0, affectedSchemas = []\<rparr>"
proof -
  let ?f = "lit ''routes/web.php''"
  have k: "lit ''constructor'' \<in> set object_prototype_keys"
    by (simp add: object_prototype_keys_def)
  have n: "map_of schemaAffectingTasks (lit ''constructor'') = None"
    by (simp add: schemaAffectingTasks_def lit_def)
  have t: "taskTypeConfidence (lit ''constructor'') = 0"
    by (simp add: taskTypeConfidence_def n)
  have m: "matched [?f] = [(?f, schemaAffectingFiles ! 3)]"
    by (simp add: matched_def schemaAffectingFiles_def endsWith_def lit_def)
  have c: "maxFileConfidence [?f] = 9/10"
    by (simp add: maxFileConfidence_def m schemaAffectingFiles_def)
  have r: "join (lit ''; '') (fileReasons [?f]) = lit ''routes/web.php affects api''"
    unfolding fileReasons_def m by (simp add: schemaAffectingFiles_def lit_def)
  have s: "fileSchemas [?f] = [lit ''api'']"
    unfolding fileSchemas_def m by (simp add: schemaAffectingFiles_def)
  have e: "matched [] = []"
    by (simp add: matched_def)
  have 1: "shouldAutoUpdate (lit ''constructor'') [?f] =
       Inl (TypeError (lit ''Cannot read properties of undefined (reading ''
              @ [39] @ lit ''join'' @ [39] @ lit '')''))"
    by (rule shouldAutoUpdate_inherited[OF k])
  have 2: "shouldAutoUpdate (lit ''constructor'') [] =
       Inl (TypeError (lit ''Cannot read properties of undefined (reading ''
              @ [39] @ lit ''join'' @ [39] @ lit '')''))"
    by (rule shouldAutoUpdate_inherited[OF k])
  have 3: "shouldAutoUpdate (lit ''constructor'') [?f] \<noteq>
       Inr \<lparr>required = True, reason = lit ''routes/web.php affects api'',
            confidence = 9/10, affectedSchemas = [lit ''api'']\<rparr>"
    unfolding 1 by simp
  have 4: "shouldAutoUpdate (lit ''constructor'') [] \<noteq>
       Inr \<lparr>required = False, reason = lit ''No schema-affecting changes detected'',
            confidence = 0, affectedSchemas = []\<rparr>"
    unfolding 2 by simp
  show ?thesis
    by (intro conjI n t c r s 1 3 e 2 4)
qed


subsection \<open>The framework detector\<close>

lemma get_frameworkInfo_type: "get (frameworkInfo t v) (lit ''type'') = Inr (JString t)"
  by (simp add: frameworkInfo_def)

lemma checkLaravel_no_markers:
  "\<not> laravelMarkers pr \<Longrightarrow> checkLaravel P pr = Inr None \<or> (\<exists>e. checkLaravel P pr = Inl e)"
  by (cases "readFile pr (lit ''composer.json'')")
     (simp_all add: checkLaravel_def laravelMarkers_def then_do_def)

lemma checkExpress_no_markers:
  assumes "\<not> expressMarkers P pr"
  shows "checkExpress P pr = Inr None \<or> (\<exists>e. checkExpress P pr = Inl e)"
proof (cases "fileExists pr (lit ''package.json'')")
  case False
  then show ?thesis by (simp add: checkExpress_def)
next
  case True
  show ?thesis
  proof (cases "readFile pr (lit ''package.json'')")
    case (Inl e)
    with True show ?thesis by (simp add: checkExpress_def then_do_def)
  next
    case c: (Inr c)
    show ?thesis
    proof (cases "P c")
      case (Inl e)
      with True c show ?thesis by (simp add: checkExpress_def then_do_def)
    next
      case pkg: (Inr pkg)
      show ?thesis
      proof (cases "expressDependency pkg")
        case (Inl e)
        with True c pkg show ?thesis by (simp add: checkExpress_def then_do_def)
      next
        case (Inr found)
        with True c pkg assms have "\<not> truthy found"
          by (simp add: expressMarkers_def then_do_def)
        with True c pkg Inr show ?thesis
          by (simp add: checkExpress_def then_do_def)
      qed
    qed
  qed
qed

lemma detect_unknown_type:
  assumes "\<not> laravelMarkers pr" "\<not> railsMarkers pr" "\<not> djangoMarkers pr" "\<not> expressMarkers P pr"
  shows "\<exists>info. detectFramework P pr = Inr info
           \<and> get info (lit ''type'') = Inr (JString (lit ''unknown''))"
proof -
  have r: "\<not> (fileExists pr (lit ''Gemfile'') \<and> fileExists pr (lit ''config/application.rb''))"
    using assms(2) by (simp add: railsMarkers_def)
  have d: "\<not> (fileExists pr (lit ''manage.py'') \<and> fileExists pr (lit ''requirements.txt''))"
    using assms(3) by (simp add: djangoMarkers_def)
  have t: "detectFramework_try P pr = Inr (frameworkInfo (lit ''unknown'') JNull)
           \<or> (\<exists>e. detectFramework_try P pr = Inl e)"
    using checkLaravel_no_markers[OF assms(1), of P] checkExpress_no_markers[OF assms(4)] r d
    by (auto simp: detectFramework_try_def then_do_def)
  then show ?thesis
  proof
    assume "detectFramework_try P pr = Inr (frameworkInfo (lit ''unknown'') JNull)"
    then show ?thesis by (simp add: detectFramework_def get_frameworkInfo_type)
  next
    assume "\<exists>e. detectFramework_try P pr = Inl e"
    then show ?thesis by (auto simp: detectFramework_def)
  qed
qed

lemma extractLaravelVersion_eq:
  "extractLaravelVersion P c =
     (case P c of
        Inl e \<Rightarrow> JString (lit ''unknown'')
      | Inr composer \<Rightarrow>
          if truthy (requiredLaravel composer) then requiredLaravel composer
          else JString (lit ''unknown''))"
proof (cases "P c")
  case (Inl e)
  then show ?thesis by (simp add: extractLaravelVersion_def then_do_def)
next
  case (Inr composer)
  show ?thesis
  proof (cases composer)
    case (JObject ps)
    show ?thesis
    proof (cases "map_of ps (lit ''require'')")
      case None
      with Inr JObject show ?thesis
        by (simp add: extractLaravelVersion_def then_do_def requiredLaravel_def js_and_def js_or_def)
    next
      case (Some r)
      with Inr JObject show ?thesis
        by (cases r)
           (simp_all add: extractLaravelVersion_def then_do_def requiredLaravel_def js_and_def js_or_def
             split: option.splits)
    qed
  qed (use Inr in \<open>simp_all add: extractLaravelVersion_def then_do_def requiredLaravel_def js_and_def js_or_def\<close>)
qed

lemma detect_laravel:
  assumes "fileExists pr (lit ''artisan'')" "fileExists pr (lit ''composer.json'')"
    "readFile pr (lit ''composer.json'') = Inr c" "includes_str c (lit ''laravel/framework'')"
  shows "detectFramework P pr = Inr (frameworkInfo (lit ''laravel'') (extractLaravelVersion P c))"
  using assms
  by (simp add: detectFramework_def detectFramework_try_def checkLaravel_def then_do_def)



lemma checkLaravel_absent:
  "\<not> (fileExists pr (lit ''artisan'') \<and> fileExists pr (lit ''composer.json'')) \<Longrightarrow>
   checkLaravel P pr = Inr None"
  by (auto simp: checkLaravel_def)

lemma detect_try_express:
  assumes "checkLaravel P pr = Inr None" "\<not> railsMarkers pr" "\<not> djangoMarkers pr"
  shows "detectFramework_try P pr =
     then_do (checkExpress P pr) (\<lambda>returned.
       case returned of Some info \<Rightarrow> Inr info
       | None \<Rightarrow> Inr (frameworkInfo (lit ''unknown'') JNull))"
proof -
  have r: "\<not> (fileExists pr (lit ''Gemfile'') \<and> fileExists pr (lit ''config/application.rb''))"
    using assms(2) by (simp add: railsMarkers_def)
  have d: "\<not> (fileExists pr (lit ''manage.py'') \<and> fileExists pr (lit ''requirements.txt''))"
    using assms(3) by (simp add: djangoMarkers_def)
  show ?thesis
    unfolding detectFramework_try_def assms(1) using r d by (auto simp: then_do_def)
qed

lemma detect_no_files:
  assumes "\<not> (fileExists pr (lit ''artisan'') \<and> fileExists pr (lit ''composer.json''))"
    "\<not> railsMarkers pr" "\<not> djangoMarkers pr" "\<not> fileExists pr (lit ''package.json'')"
  shows "detectFramework P pr = Inr (frameworkInfo (lit ''unknown'') JNull)"
proof -
  have "checkExpress P pr = Inr None"
    using assms(4) by (simp add: checkExpress_def)
  then show ?thesis
    using detect_try_express[OF checkLaravel_absent[OF assms(1)] assms(2,3), of P]
    by (simp add: detectFramework_def then_do_def)
qed








text \<open>
  C5, as amended. If \<open>artisan\<close> and \<open>composer.json\<close> are there and the content of
  \<open>composer.json\<close> contains \<open>laravel/framework\<close>, the result is of type \<open>laravel\<close>, and its
  version is the value of \<open>require['laravel/framework']\<close> when that value is truthy, and
  \<open>'unknown'\<close> when the JSON is unparsable, the field is absent, or its value is falsy
  (the empty string, \<open>null\<close>, \<open>false\<close>, 0).
\<close>

theorem detectFramework_laravel_version:
  assumes "fileExists pr (lit ''artisan'')" and "fileExists pr (lit ''composer.json'')"
    and "readFile pr (lit ''composer.json'') = Inr composerContent"
    and "includes_str composerContent (lit ''laravel/framework'')"
  shows "detectFramework JSON_parse pr =
     Inr (JObject [(lit ''type'', JString (lit ''laravel'')),
                   (lit ''version'',
                      (case JSON_parse composerContent of
                         Inl e \<Rightarrow> JString (lit ''unknown'')
                       | Inr composer \<Rightarrow>
                           if truthy (requiredLaravel composer) then requiredLaravel composer
                           else JString (lit ''unknown'')))])"
  using detect_laravel[OF assms, of JSON_parse]
  by (simp add: frameworkInfo_def extractLaravelVersion_eq)

lemma composerJson_includes: "includes_str (composerJson v) (lit ''laravel/framework'')"
  by (simp add: composerJson_def quoted_def lit_def)

theorem detectFramework_laravel_version_witness:
  "detectFramework exampleParser (laravelProject (composerJson (lit ''^10.0''))) =
     Inr (JObject [(lit ''type'', JString (lit ''laravel'')),
                   (lit ''version'', JString (lit ''^10.0''))])"
proof -
  let ?pr = "laravelProject (composerJson (lit ''^10.0''))"
  have a: "fileExists ?pr (lit ''artisan'')" "fileExists ?pr (lit ''composer.json'')"
    "readFile ?pr (lit ''composer.json'') = Inr (composerJson (lit ''^10.0''))"
    by (simp_all add: laravelProject_def fileExists_def)
  have r: "requiredLaravel (composerParsed (lit ''^10.0'')) = JString (lit ''^10.0'')"
    by (simp add: requiredLaravel_def composerParsed_def)
  have t: "lit ''^10.0'' \<noteq> []"
    by (simp add: lit_def)
  show ?thesis
    using detectFramework_laravel_version[OF a composerJson_includes, of exampleParser]
    by (simp add: exampleParser_def r t)
qed

text \<open>
  The claim as stated fails where the field is present with a falsy value: for
  \<^verbatim>\<open>{"require":{"laravel/framework":""}}\<close> the value of the field is the empty string and
  the version returned is \<open>'unknown'\<close>.
\<close>

theorem detectFramework_laravel_version_counterexample:
  "requiredLaravel (composerParsed []) = JString []
   \<and> detectFramework exampleParser (laravelProject (composerJson [])) =
       Inr (JObject [(lit ''type'', JString (lit ''laravel'')),
                     (lit ''version'', JString (lit ''unknown''))])
   \<and> detectFramework exampleParser (laravelProject (composerJson [])) \<noteq>
       Inr (JObject [(lit ''type'', JString (lit ''laravel'')),
                     (lit ''version'', requiredLaravel (composerParsed []))])"
proof -
  let ?pr = "laravelProject (composerJson [])"
  have a: "fileExists ?pr (lit ''artisan'')" "fileExists ?pr (lit ''composer.json'')"
    "readFile ?pr (lit ''composer.json'') = Inr (composerJson [])"
    by (simp_all add: laravelProject_def fileExists_def)
  have r: "requiredLaravel (composerParsed []) = JString []"
    by (simp add: requiredLaravel_def composerParsed_def)
  have n: "composerJson [] \<noteq> composerJson (lit ''^10.0'')"
    by (simp add: composerJson_def quoted_def lit_def)
  have d: "detectFramework exampleParser ?pr =
       Inr (JObject [(lit ''type'', JString (lit ''laravel'')),
                     (lit ''version'', JString (lit ''unknown''))])"
    using detect_laravel[OF a composerJson_includes, of exampleParser] n
    by (simp add: frameworkInfo_def extractLaravelVersion_eq exampleParser_def r)
  have u: "lit ''unknown'' \<noteq> []"
    by (simp add: lit_def)
  from r d u show ?thesis by simp
qed


subsection \<open>The structural scanner\<close>

lemma records_set_property:
  "r \<in> set (records_of (Listing (set_property files k v))) \<Longrightarrow>
   r \<in> set (records_of (Listing files)) \<or> r \<in> set (records_of v)"
  by (force simp: set_property_def split: if_splits)

lemma scan_records_made:
  "r \<in> set (records_of (scanDirectory dirPath extension d)) \<Longrightarrow>
     \<exists>f \<in> set (files_of dirPath d). made_from r f"
  "r \<in> set (records_of (Listing (scanEntries dirPath extension entries files))) \<Longrightarrow>
     r \<in> set (records_of (Listing files)) \<or> (\<exists>f \<in> set (files_of_entries dirPath entries). made_from r f)"
proof (induction dirPath extension d and dirPath extension entries files
    arbitrary: r and r rule: scanDirectory_scanEntries.induct)
  case (1 dirPath extension)
  then show ?case by simp
next
  case (2 dirPath extension error)
  then show ?case by simp
next
  case (3 dirPath extension entries)
  from "3.IH"[of r] "3.prems" show ?case by simp
next
  case (4 dirPath extension files)
  then show ?case by simp
next
  case (5 dirPath extension name x entries files)
  let ?v = "case x of
              Inr d \<Rightarrow> FileRecord \<lparr>path = path_join dirPath name, size_rec = length (utf8_text d),
                                   lastModified = mtime d, content = take 5000 (utf8_text d)\<rparr>
            | Inl error \<Rightarrow> ErrorObject (message error)"
  let ?files = "if extension = [] \<or> endsWith name extension then set_property files name ?v else files"
  from "5.prems" have "r \<in> set (records_of (Listing (scanEntries dirPath extension entries ?files)))"
    by simp
  from "5.IH"[OF this]
  have "r \<in> set (records_of (Listing ?files))
        \<or> (\<exists>f \<in> set (files_of_entries dirPath entries). made_from r f)" .
  then show ?case
  proof
    assume "r \<in> set (records_of (Listing ?files))"
    then have "r \<in> set (records_of (Listing files)) \<or> r \<in> set (records_of ?v)"
      using records_set_property[of r files name ?v] by (auto split: if_splits)
    then show ?case
      by (cases x) (auto simp: made_from_def)
  next
    assume "\<exists>f \<in> set (files_of_entries dirPath entries). made_from r f"
    then show ?case by (cases x) auto
  qed
next
  case (6 dirPath extension name d entries files)
  let ?sub = "scanDirectory (path_join dirPath name) extension d"
  let ?files = "if keyCount ?sub > 0 then set_property files name ?sub else files"
  from "6.prems" have "r \<in> set (records_of (Listing (scanEntries dirPath extension entries ?files)))"
    by (simp add: Let_def)
  from "6.IH"(2)[unfolded Let_def, OF this]
  have "r \<in> set (records_of (Listing ?files))
        \<or> (\<exists>f \<in> set (files_of_entries dirPath entries). made_from r f)" .
  then show ?case
  proof
    assume "r \<in> set (records_of (Listing ?files))"
    then have "r \<in> set (records_of (Listing files)) \<or> r \<in> set (records_of ?sub)"
      using records_set_property[of r files name ?sub] by (auto split: if_splits)
    then show ?case
      using "6.IH"(1)[of r] by auto
  next
    assume "\<exists>f \<in> set (files_of_entries dirPath entries). made_from r f"
    then show ?case by auto
  qed
next
  case (7 dirPath extension name entries files)
  from "7.IH"[of r] "7.prems" show ?case by simp
qed


lemma scan_example:
  "scanDirectory (lit ''app'') (lit ''.php'') exampleTree =
     Listing [(lit ''Big.php'', FileRecord bigRecord),
              (lit ''Models'', Listing [(lit ''e.php'', FileRecord accentedRecord)])]"
  by (simp add: exampleTree_def bigRecord_def accentedRecord_def bigFile_def accentedFile_def
      set_property_def endsWith_def path_join_def lit_def)

text \<open>
  C6. Every file record of a scan was made from a readable file of the tree, at that
  file's path; its content has at most 5000 code units, it is the first 5000 code units
  of the file's text, and it is the whole text when the text has at most 5000.
\<close>

theorem scanDirectory_truncation:
  assumes "r \<in> set (records_of (scanDirectory dirPath extension d))"
  shows "length (content r) \<le> 5000
     \<and> (\<exists>f \<in> set (files_of dirPath d).
           path r = fst f \<and> content r = take 5000 (utf8_text (snd f))
           \<and> (length (utf8_text (snd f)) \<le> 5000 \<longrightarrow> content r = utf8_text (snd f)))"
proof -
  from scan_records_made(1)[OF assms] obtain f
    where f: "f \<in> set (files_of dirPath d)" "made_from r f" by blast
  from f(2) have c: "content r = take 5000 (utf8_text (snd f))" and p: "path r = fst f"
    by (simp_all add: made_from_def)
  from c have "length (content r) \<le> 5000" by simp
  moreover from c have "length (utf8_text (snd f)) \<le> 5000 \<longrightarrow> content r = utf8_text (snd f)"
    by simp
  ultimately show ?thesis using f(1) c p by blast
qed

theorem scanDirectory_truncation_witness:
  "bigRecord \<in> set (records_of (scanDirectory (lit ''app'') (lit ''.php'') exampleTree))
   \<and> length (content bigRecord) \<le> 5000
   \<and> (\<exists>f \<in> set (files_of (lit ''app'') exampleTree).
           path bigRecord = fst f \<and> content bigRecord = take 5000 (utf8_text (snd f))
           \<and> (length (utf8_text (snd f)) \<le> 5000 \<longrightarrow> content bigRecord = utf8_text (snd f)))"
proof -
  have m: "bigRecord \<in> set (records_of (scanDirectory (lit ''app'') (lit ''.php'') exampleTree))"
    by (simp add: scan_example)
  from scanDirectory_truncation[OF m] m show ?thesis by blast
qed

text \<open>
  C8. On a file that holds the two bytes of an accented letter the record's size is 1,
  the length of the decoded text, where the file's size in bytes is 2.
\<close>

theorem scanDirectory_size_is_text_length:
  "scanDirectory (lit ''app'') (lit ''.php'') exampleTree =
     Listing [(lit ''Big.php'', FileRecord bigRecord),
              (lit ''Models'', Listing [(lit ''e.php'', FileRecord accentedRecord)])]
   \<and> size_rec accentedRecord = 1
   \<and> size_on_disk accentedFile = 2
   \<and> utf8_bytes (utf8_text accentedFile) = size_on_disk accentedFile"
  by (simp add: scan_example accentedRecord_def accentedFile_def utf8_bytes_def)


subsection \<open>The use-trait extractor\<close>

lemma foldl_traits:
  "foldl (\<lambda>traits m. let traitName = traitNameOf m
                      in if isTrait traitName then traits @ [traitName] else traits) acc ms
   = acc @ filter isTrait (map traitNameOf ms)"
  by (induction ms arbitrary: acc) (simp_all add: Let_def)

lemma extractPhpTraits_filter:
  "extractPhpTraits phpContent = filter isTrait (useTargets phpContent)"
  by (simp add: extractPhpTraits_def useTargets_def foldl_traits)

lemma isTrait_iff:
  "isTrait X \<longleftrightarrow>
     includes_str X [92] \<and> \<not> includes_str X ([92] @ lit ''Http'' @ [92])
     \<and> \<not> includes_str X (lit ''function'')"
  by (cases X) (auto simp: isTrait_def)

text \<open>
  C9, as amended. The result of \<open>extractPhpTraits\<close> contains the target \<open>X\<close> of a
  \<open>use X;\<close> statement if and only if \<open>X\<close> contains a namespace separator and contains
  neither \<open>\Http\\<close> nor \<open>function\<close>.
\<close>

theorem extractPhpTraits_filter_rule:
  "X \<in> set (extractPhpTraits phpContent) \<longleftrightarrow>
     X \<in> set (useTargets phpContent) \<and> includes_str X [92]
     \<and> \<not> includes_str X ([92] @ lit ''Http'' @ [92])
     \<and> \<not> includes_str X (lit ''function'')"
  by (auto simp: extractPhpTraits_filter isTrait_iff)

lemma controller_targets:
  "useTargets controllerSource = [controllerTarget, hasRolesTarget, lit ''Closure'']"
  by (simp add: useTargets_def match_uses_def controllerSource_def controllerTarget_def
      hasRolesTarget_def match_use_at_def traitNameOf_def trim_def is_space_def lit_def)

theorem extractPhpTraits_filter_rule_witness:
  "hasRolesTarget \<in> set (extractPhpTraits controllerSource)
   \<and> lit ''Closure'' \<notin> set (extractPhpTraits controllerSource)"
proof -
  have a: "includes_str hasRolesTarget [92]"
    by (simp add: hasRolesTarget_def lit_def)
  have b: "\<not> includes_str hasRolesTarget ([92] @ lit ''Http'' @ [92])"
    by (simp add: hasRolesTarget_def lit_def)
  have c: "\<not> includes_str hasRolesTarget (lit ''function'')"
    by (simp add: hasRolesTarget_def lit_def)
  have d: "\<not> includes_str (lit ''Closure'') [92]"
    by (simp add: lit_def)
  show ?thesis
    using extractPhpTraits_filter_rule[of hasRolesTarget controllerSource]
      extractPhpTraits_filter_rule[of "lit ''Closure''" controllerSource] a b c d
    by (simp add: controller_targets)
qed

text \<open>
  The claim as stated fails on a namespaced target under \<open>\Http\\<close>: the target of
  \<open>use App\Http\Controllers\Controller;\<close> contains a separator and is not in the result.
\<close>

theorem extractPhpTraits_namespaced_counterexample:
  "controllerTarget \<in> set (useTargets controllerSource)
   \<and> includes_str controllerTarget [92]
   \<and> controllerTarget \<notin> set (extractPhpTraits controllerSource)"
proof -
  have a: "includes_str controllerTarget [92]"
    by (simp add: controllerTarget_def lit_def)
  have b: "includes_str controllerTarget ([92] @ lit ''Http'' @ [92])"
    by (simp add: controllerTarget_def lit_def)
  have "\<not> isTrait controllerTarget"
    using b by (simp add: isTrait_def)
  then have "controllerTarget \<notin> set (extractPhpTraits controllerSource)"
    by (simp add: extractPhpTraits_filter)
  with a show ?thesis by (simp add: controller_targets)
qed


subsection \<open>Schema persistence\<close>

lemma fs_step_cases:
  "fs_step faults p x = Inr y \<Longrightarrow> y = x"
  "fs_step faults p x = Inl e \<Longrightarrow> faults p = Some e"
  by (auto simp: fs_step_def split: option.splits)

lemma writeCurrent_history:
  "writeCurrent faults file doc st = Inr st' \<Longrightarrow> historyFile st' = historyFile st"
  by (auto simp: writeCurrent_def dest!: fs_step_cases(1))

lemma writeVersion_history:
  "writeVersion faults v file doc st = Inr st' \<Longrightarrow> historyFile st' = historyFile st"
  by (auto simp: writeVersion_def dest!: fs_step_cases(1))

lemma saveCurrent_history:
  "saveCurrent faults entries st = Inr st' \<Longrightarrow> historyFile st' = historyFile st"
proof (induction entries arbitrary: st)
  case Nil
  then show ?case by simp
next
  case (Cons a entries)
  obtain name schema where a: "a = (name, schema)" by (cases a)
  show ?case
  proof (cases "name = lit ''metadata''")
    case True
    with Cons a show ?thesis by simp
  next
    case False
    with Cons.prems a obtain st1 where
      1: "writeCurrent faults (name @ lit ''-schema.yml'') schema st = Inr st1"
      and 2: "saveCurrent faults entries st1 = Inr st'"
      by (auto simp: then_do_def split: sum.splits)
    from Cons.IH[OF 2] writeCurrent_history[OF 1] show ?thesis by simp
  qed
qed

lemma saveVersion_history:
  "saveVersion faults v entries st = Inr st' \<Longrightarrow> historyFile st' = historyFile st"
proof (induction entries arbitrary: st)
  case Nil
  then show ?case by simp
next
  case (Cons a entries)
  obtain name schema where a: "a = (name, schema)" by (cases a)
  from Cons.prems a obtain st1 where
    1: "writeVersion faults v (name @ lit ''.yml'') schema st = Inr st1"
    and 2: "saveVersion faults v entries st1 = Inr st'"
    by (auto simp: then_do_def split: sum.splits)
  from Cons.IH[OF 2] writeVersion_history[OF 1] show ?case by simp
qed

lemma get_object: "get (JObject ps) k = Inr (case map_of ps k of Some v \<Rightarrow> v | None \<Rightarrow> JUndefined)"
  by simp

lemma get_truthy: "truthy v \<Longrightarrow> \<exists>w. get v k = Inr w"
  by (cases v) simp_all

lemma js_and_get_total: "\<exists>w. js_and v (get v k) = Inr w"
  using get_truthy[of v k] by (cases "truthy v") (auto simp: js_and_def)

lemma historyEntry_value:
  "\<exists>framework. historyEntry timestamp schemas =
     Inr (JObject [(lit ''timestamp'', JString timestamp),
                     (lit ''version'', JString (lit ''v'' @ timestamp)),
                     (lit ''framework'', framework),
                     (lit ''schemas'', schemaNames schemas),
                     (lit ''changeLog'', JString (lit ''Schema generation completed successfully''))])"
proof -
  let ?m = "case map_of schemas (lit ''metadata'') of Some v \<Rightarrow> v | None \<Rightarrow> JUndefined"
  obtain framework where f: "js_and ?m (get ?m (lit ''framework'')) = Inr framework"
    using js_and_get_total[of ?m "lit ''framework''"] by blast
  show ?thesis
    by (simp add: historyEntry_def then_do_def f)
qed

lemma historyEntry_total: "historyEntry timestamp schemas = Inr (entryOf (timestamp, schemas))"
  using historyEntry_value[of timestamp schemas] by (auto simp: entryOf_def)

lemma entryOf_timestamp:
  "get (entryOf (timestamp, schemas)) (lit ''timestamp'') = Inr (JString timestamp)"
  using historyEntry_value[of timestamp schemas] by (auto simp: entryOf_def)

lemma logHistory_result:
  assumes "logHistory faults timestamp schemas st = Inr st'"
  shows "readHistory (historyFile st) = JArray (ledger st)
     \<and> historyFile st' = Loads (JArray (take 50 (entryOf (timestamp, schemas) # ledger st)))"
proof (cases "readHistory (historyFile st)")
  case (JArray xs)
  then have l: "ledger st = xs" by (simp add: ledger_def)
  from assms have "fs_step faults (lit ''history/changes.yml'')
      (st\<lparr>historyFile := Loads (JArray (take 50 (entryOf (timestamp, schemas) # xs)))\<rparr>) = Inr st'"
    by (simp add: logHistory_def historyEntry_total JArray then_do_def)
  from fs_step_cases(1)[OF this] JArray l show ?thesis by simp
qed (use assms in \<open>simp_all add: logHistory_def historyEntry_total then_do_def\<close>)

lemma saveSchemas_log:
  assumes "saveSchemas faults timestamp schemas st = Inr st'"
  shows "\<exists>st1. historyFile st1 = historyFile st \<and> logHistory faults timestamp schemas st1 = Inr st'"
proof -
  from assms obtain s1 metadata s2 s3 s4 where
    1: "saveCurrent faults schemas st = Inr s1"
    and 2: "writeCurrent faults (lit ''metadata.yml'') metadata s1 = Inr s2"
    and 3: "fs_step faults (lit ''versions/v'' @ timestamp) s2 = Inr s3"
    and 4: "saveVersion faults (lit ''v'' @ timestamp) schemas s3 = Inr s4"
    and 5: "logHistory faults timestamp schemas s4 = Inr st'"
    unfolding saveSchemas_def then_do_def by (auto split: sum.splits)
  from saveCurrent_history[OF 1] writeCurrent_history[OF 2] fs_step_cases(1)[OF 3]
    saveVersion_history[OF 4]
  have "historyFile s4 = historyFile st" by simp
  with 5 show ?thesis by blast
qed

lemma saveSchemas_ledger:
  assumes "saveSchemas faults timestamp schemas st = Inr st'"
  shows "readHistory (historyFile st) = JArray (ledger st)"
    and "historyFile st' = Loads (JArray (take 50 (entryOf (timestamp, schemas) # ledger st)))"
proof -
  from saveSchemas_log[OF assms] obtain st1 where
    h: "historyFile st1 = historyFile st" and l: "logHistory faults timestamp schemas st1 = Inr st'"
    by blast
  have "ledger st1 = ledger st" using h by (simp add: ledger_def)
  with logHistory_result[OF l] h
  show "readHistory (historyFile st) = JArray (ledger st)"
    and "historyFile st' = Loads (JArray (take 50 (entryOf (timestamp, schemas) # ledger st)))"
    by simp_all
qed

lemma take_append_take: "take n (xs @ take n ys) = take n (xs @ ys)"
  by (induction xs arbitrary: n) (simp_all add: take_Cons split: nat.splits)

lemma saves_ledger:
  assumes "saves faults calls st = Inr st'" "calls \<noteq> []"
  shows "historyFile st' = Loads (JArray (take 50 (rev (map entryOf calls) @ ledger st)))"
  using assms
proof (induction calls arbitrary: st)
  case Nil
  then show ?case by simp
next
  case (Cons call calls)
  obtain timestamp schemas where c: "call = (timestamp, schemas)" by (cases call)
  from Cons.prems(1) c obtain st1 where
    1: "saveSchemas faults timestamp schemas st = Inr st1"
    and 2: "saves faults calls st1 = Inr st'"
    by (auto simp: then_do_def split: sum.splits)
  note h1 = saveSchemas_ledger(2)[OF 1]
  show ?case
  proof (cases "calls = []")
    case True
    with 2 h1 c show ?thesis by simp
  next
    case False
    have "ledger st1 = take 50 (entryOf call # ledger st)"
      using h1 c by (simp add: ledger_def readHistory_def)
    with Cons.IH[OF 2 False]
    have "historyFile st' =
      Loads (JArray (take 50 (rev (map entryOf calls) @ take 50 (entryOf call # ledger st))))"
      by (simp only:)
    moreover have "rev (map entryOf (call # calls)) @ ledger st =
      rev (map entryOf calls) @ (entryOf call # ledger st)"
      by simp
    ultimately show ?thesis by (simp only: take_append_take)
  qed
qed


lemma writeCurrent_fault:
  "writeCurrent faults file doc st = Inl e \<Longrightarrow> \<exists>p. faults p = Some e"
  by (auto simp: writeCurrent_def dest!: fs_step_cases(2))

lemma writeVersion_fault:
  "writeVersion faults v file doc st = Inl e \<Longrightarrow> \<exists>p. faults p = Some e"
  by (auto simp: writeVersion_def dest!: fs_step_cases(2))

lemma saveCurrent_fault:
  "saveCurrent faults entries st = Inl e \<Longrightarrow> \<exists>p. faults p = Some e"
proof (induction entries arbitrary: st)
  case Nil
  then show ?case by simp
next
  case (Cons a entries)
  obtain name schema where a: "a = (name, schema)" by (cases a)
  show ?case
  proof (cases "name = lit ''metadata''")
    case True
    with Cons a show ?thesis by simp
  next
    case False
    show ?thesis
    proof (cases "writeCurrent faults (name @ lit ''-schema.yml'') schema st")
      case (Inl e')
      with Cons.prems a False have "e' = e" by (simp add: then_do_def)
      with Inl writeCurrent_fault show ?thesis by blast
    next
      case (Inr st1)
      with Cons.prems a False have "saveCurrent faults entries st1 = Inl e"
        by (simp add: then_do_def)
      from Cons.IH[OF this] show ?thesis .
    qed
  qed
qed

lemma saveVersion_fault:
  "saveVersion faults v entries st = Inl e \<Longrightarrow> \<exists>p. faults p = Some e"
proof (induction entries arbitrary: st)
  case Nil
  then show ?case by simp
next
  case (Cons a entries)
  obtain name schema where a: "a = (name, schema)" by (cases a)
  show ?case
  proof (cases "writeVersion faults v (name @ lit ''.yml'') schema st")
    case (Inl e')
    with Cons.prems a have "e' = e" by (simp add: then_do_def)
    with Inl writeVersion_fault show ?thesis by blast
  next
    case (Inr st1)
    with Cons.prems a have "saveVersion faults v entries st1 = Inl e"
      by (simp add: then_do_def)
    from Cons.IH[OF this] show ?thesis .
  qed
qed

lemma logHistory_fault:
  assumes "readHistory (historyFile st) = JArray xs"
    and "logHistory faults timestamp schemas st = Inl e"
  shows "\<exists>p. faults p = Some e"
proof -
  from assms have "fs_step faults (lit ''history/changes.yml'')
      (st\<lparr>historyFile := Loads (JArray (take 50 (entryOf (timestamp, schemas) # xs)))\<rparr>) = Inl e"
    by (simp add: logHistory_def historyEntry_total then_do_def)
  from fs_step_cases(2)[OF this] show ?thesis by blast
qed

lemma then_do_InlE:
  assumes "then_do m f = Inl e"
  obtains "m = Inl e" | x where "m = Inr x" "f x = Inl e"
  using assms by (cases m) (simp_all add: then_do_def)

lemma saveSchemas_fault:
  assumes r: "readHistory (historyFile st) = JArray xs"
    and f: "saveSchemas faults timestamp schemas st = Inl e"
  shows "\<exists>p. faults p = Some e"
  using f[unfolded saveSchemas_def]
proof (cases rule: then_do_InlE)
  case 1
  then show ?thesis by (rule saveCurrent_fault)
next
  case a: (2 s1)
  from a(2) show ?thesis
  proof (cases rule: then_do_InlE)
    case 1
    then show ?thesis by simp
  next
    case b: (2 metadata)
    from b(2) show ?thesis
    proof (cases rule: then_do_InlE)
      case 1
      then show ?thesis by (rule writeCurrent_fault)
    next
      case c: (2 s2)
      from c(2) show ?thesis
      proof (cases rule: then_do_InlE)
        case 1
        from fs_step_cases(2)[OF this] show ?thesis by blast
      next
        case d: (2 s3)
        from d(2) show ?thesis
        proof (cases rule: then_do_InlE)
          case 1
          then show ?thesis by (rule saveVersion_fault)
        next
          case g: (2 s4)
          from saveCurrent_history[OF a(1)] writeCurrent_history[OF c(1)]
            fs_step_cases(1)[OF d(1)] saveVersion_history[OF g(1)]
          have "historyFile s4 = historyFile st" by simp
          with r have "readHistory (historyFile s4) = JArray xs" by simp
          from logHistory_fault[OF this g(2)] show ?thesis .
        qed
      qed
    qed
  qed
qed


lemma saveSchemas_noFaults:
  assumes "readHistory (historyFile st) = JArray xs"
  shows "\<exists>st'. saveSchemas noFaults timestamp schemas st = Inr st'"
proof (cases "saveSchemas noFaults timestamp schemas st")
  case (Inl e)
  from saveSchemas_fault[OF assms Inl] show ?thesis by (simp add: noFaults_def)
next
  case (Inr st')
  then show ?thesis by blast
qed

lemma saves_noFaults:
  assumes "readHistory (historyFile st) = JArray xs"
  shows "\<exists>st'. saves noFaults calls st = Inr st'"
  using assms
proof (induction calls arbitrary: st xs)
  case Nil
  then show ?case by simp
next
  case (Cons call calls)
  obtain timestamp schemas where c: "call = (timestamp, schemas)" by (cases call)
  from saveSchemas_noFaults[OF Cons.prems] obtain st1 where
    1: "saveSchemas noFaults timestamp schemas st = Inr st1" by blast
  from saveSchemas_ledger(2)[OF 1]
  have "readHistory (historyFile st1) = JArray (take 50 (entryOf (timestamp, schemas) # ledger st))"
    by (simp add: readHistory_def)
  from Cons.IH[OF this] 1 c show ?case by (simp add: then_do_def)
qed

lemma readHistory_missing:
  "historyFile st = ReadFails e \<or> historyFile st = LoadFails e \<Longrightarrow>
   readHistory (historyFile st) = JArray [] \<and> ledger st = []"
  by (auto simp: readHistory_def ledger_def)

text \<open>
  C2. After every successful save the ledger is an array of at most 50 entries, namely the
  entry just written followed by the previous entries, cut at 50. After successive saves
  it holds the entries of the calls, newest first, before the previous ones, cut at 50;
  after 50 or more saves it holds exactly the entries of the last 50 calls, newest first.
  A ledger file that is missing or unparsable counts as the empty list: a save on it can
  fail only with an error of the file system, and without such faults it succeeds and
  leaves the one new entry.
\<close>

theorem saveSchemas_history_bound:
  "(saveSchemas faults timestamp schemas st = Inr st' \<longrightarrow>
      (\<exists>h. historyFile st' = Loads (JArray h) \<and> length h \<le> 50
         \<and> h = take 50 (entryOf (timestamp, schemas) # ledger st)
         \<and> hd h = entryOf (timestamp, schemas)
         \<and> get (hd h) (lit ''timestamp'') = Inr (JString timestamp)))
   \<and> (saves faults calls st = Inr st'' \<and> calls \<noteq> [] \<longrightarrow>
         historyFile st'' = Loads (JArray (take 50 (rev (map entryOf calls) @ ledger st))))
   \<and> (saves faults calls st = Inr st'' \<and> 50 \<le> length calls \<longrightarrow>
         historyFile st'' = Loads (JArray (rev (map entryOf (drop (length calls - 50) calls))))
         \<and> length (rev (map entryOf (drop (length calls - 50) calls))) = 50)
   \<and> (historyFile st = ReadFails error \<or> historyFile st = LoadFails error \<longrightarrow>
         ledger st = []
         \<and> (\<forall>e. saveSchemas faults timestamp schemas st = Inl e \<longrightarrow> (\<exists>p. faults p = Some e))
         \<and> (\<exists>st'. saveSchemas noFaults timestamp schemas st = Inr st'
                \<and> historyFile st' = Loads (JArray [entryOf (timestamp, schemas)])))"
proof -
  have a: "saveSchemas faults timestamp schemas st = Inr st' \<longrightarrow>
      (\<exists>h. historyFile st' = Loads (JArray h) \<and> length h \<le> 50
         \<and> h = take 50 (entryOf (timestamp, schemas) # ledger st)
         \<and> hd h = entryOf (timestamp, schemas)
         \<and> get (hd h) (lit ''timestamp'') = Inr (JString timestamp))"
  proof
    assume s: "saveSchemas faults timestamp schemas st = Inr st'"
    let ?h = "take 50 (entryOf (timestamp, schemas) # ledger st)"
    have 1: "historyFile st' = Loads (JArray ?h)"
      by (rule saveSchemas_ledger(2)[OF s])
    have 2: "length ?h \<le> 50" by simp
    have 3: "hd ?h = entryOf (timestamp, schemas)" by simp
    have 4: "get (hd ?h) (lit ''timestamp'') = Inr (JString timestamp)"
      unfolding 3 by (rule entryOf_timestamp)
    show "\<exists>h. historyFile st' = Loads (JArray h) \<and> length h \<le> 50
         \<and> h = take 50 (entryOf (timestamp, schemas) # ledger st)
         \<and> hd h = entryOf (timestamp, schemas)
         \<and> get (hd h) (lit ''timestamp'') = Inr (JString timestamp)"
      by (rule exI[of _ ?h]) (intro conjI 1 2 3 4 refl)
  qed
  have b: "saves faults calls st = Inr st'' \<and> calls \<noteq> [] \<longrightarrow>
         historyFile st'' = Loads (JArray (take 50 (rev (map entryOf calls) @ ledger st)))"
  proof
    assume "saves faults calls st = Inr st'' \<and> calls \<noteq> []"
    then show "historyFile st'' = Loads (JArray (take 50 (rev (map entryOf calls) @ ledger st)))"
      using saves_ledger[of faults calls st st''] by (elim conjE)
  qed
  have c: "saves faults calls st = Inr st'' \<and> 50 \<le> length calls \<longrightarrow>
         historyFile st'' = Loads (JArray (rev (map entryOf (drop (length calls - 50) calls))))
         \<and> length (rev (map entryOf (drop (length calls - 50) calls))) = 50"
  proof
    assume h: "saves faults calls st = Inr st'' \<and> 50 \<le> length calls"
    then have ne: "calls \<noteq> []" by auto
    from h have "take 50 (rev (map entryOf calls) @ ledger st) = take 50 (rev (map entryOf calls))"
      by simp
    also have "\<dots> = rev (drop (length calls - 50) (map entryOf calls))"
      by (simp add: take_rev)
    also have "\<dots> = rev (map entryOf (drop (length calls - 50) calls))"
      by (simp add: drop_map)
    finally have "take 50 (rev (map entryOf calls) @ ledger st) =
        rev (map entryOf (drop (length calls - 50) calls))" .
    moreover from h have "length (rev (map entryOf (drop (length calls - 50) calls))) = 50"
      by simp
    ultimately show "historyFile st'' = Loads (JArray (rev (map entryOf (drop (length calls - 50) calls))))
         \<and> length (rev (map entryOf (drop (length calls - 50) calls))) = 50"
      using saves_ledger[OF conjunct1[OF h] ne] by (simp only: simp_thms)
  qed
  have d: "historyFile st = ReadFails error \<or> historyFile st = LoadFails error \<longrightarrow>
         ledger st = []
         \<and> (\<forall>e. saveSchemas faults timestamp schemas st = Inl e \<longrightarrow> (\<exists>p. faults p = Some e))
         \<and> (\<exists>st'. saveSchemas noFaults timestamp schemas st = Inr st'
                \<and> historyFile st' = Loads (JArray [entryOf (timestamp, schemas)]))"
  proof
    assume m: "historyFile st = ReadFails error \<or> historyFile st = LoadFails error"
    from readHistory_missing[OF m] have r: "readHistory (historyFile st) = JArray []"
      and l: "ledger st = []" by simp_all
    from saveSchemas_noFaults[OF r] obtain st1 where
      1: "saveSchemas noFaults timestamp schemas st = Inr st1" by blast
    from saveSchemas_ledger(2)[OF 1] l
    have "historyFile st1 = Loads (JArray [entryOf (timestamp, schemas)])" by simp
    then have 2: "\<exists>st'. saveSchemas noFaults timestamp schemas st = Inr st'
                \<and> historyFile st' = Loads (JArray [entryOf (timestamp, schemas)])"
      using 1 by blast
    have 3: "\<forall>e. saveSchemas faults timestamp schemas st = Inl e \<longrightarrow> (\<exists>p. faults p = Some e)"
      using saveSchemas_fault[OF r] by blast
    show "ledger st = []
         \<and> (\<forall>e. saveSchemas faults timestamp schemas st = Inl e \<longrightarrow> (\<exists>p. faults p = Some e))
         \<and> (\<exists>st'. saveSchemas noFaults timestamp schemas st = Inr st'
                \<and> historyFile st' = Loads (JArray [entryOf (timestamp, schemas)]))"
      by (intro conjI l 2 3)
  qed
  show ?thesis
    by (intro conjI a b c d)
qed

theorem saveSchemas_history_bound_witness:
  "\<exists>st''. saves noFaults calls51 emptyStore = Inr st''
     \<and> historyFile st'' = Loads (JArray (rev (map entryOf (drop 1 calls51))))
     \<and> length (rev (map entryOf (drop 1 calls51))) = 50
     \<and> get (hd (rev (map entryOf (drop 1 calls51)))) (lit ''timestamp'') = Inr (JString (stamp 50))"
proof -
  have r: "readHistory (historyFile emptyStore) = JArray []"
    by (simp add: emptyStore_def readHistory_def)
  from saves_noFaults[OF r] obtain st'' where s: "saves noFaults calls51 emptyStore = Inr st''"
    by blast
  have n: "length calls51 = 51" by (simp add: calls51_def)
  have l: "last calls51 = (stamp 50, exampleSchemas)"
    by (simp add: calls51_def last_map)
  have "hd (rev (map entryOf (drop 1 calls51))) = entryOf (last calls51)"
    using n by (simp add: hd_rev last_map last_drop)
  then have t: "get (hd (rev (map entryOf (drop 1 calls51)))) (lit ''timestamp'') = Inr (JString (stamp 50))"
    by (simp add: l entryOf_timestamp)
  from saveSchemas_history_bound[of noFaults "stamp 0" exampleSchemas emptyStore emptyStore calls51 st'' enoent]
    s n t
  show ?thesis by simp
qed

subsection \<open>The schema assembler\<close>

lemma then_do_InrE:
  assumes "then_do m f = Inr y"
  obtains x where "m = Inr x" "f x = Inr y"
  using assms by (cases m) (simp_all add: then_do_def)

lemma metadata_neq: "lit ''metadata'' \<noteq> lit ''__proto__''"
  by (simp add: lit_def)

lemma schemaKeys_no_metadata: "lit ''metadata'' \<notin> set schemaKeys"
  by (simp add: schemaKeys_def lit_def)

lemma dispatch_keys: "dispatch w t = Inr schemas \<Longrightarrow> map fst schemas = schemaKeys"
proof -
  assume d: "dispatch w t = Inr schemas"
  have l: "generateLaravelSchemas w = Inr schemas \<Longrightarrow> map fst schemas = schemaKeys"
    unfolding generateLaravelSchemas_def
    by (elim then_do_InrE) (auto simp: schemaKeys_def)
  from d l show ?thesis
    by (auto simp: dispatch_def schemaKeys_def generateRailsSchemas_def generateDjangoSchemas_def
        generateExpressSchemas_def generateGenericSchemas_def split: if_splits)
qed

lemma set_property_new:
  "k \<noteq> lit ''__proto__'' \<Longrightarrow> k \<notin> set (map fst ps) \<Longrightarrow> set_property ps k v = ps @ [(k, v)]"
  by (simp add: set_property_def)

lemma assemble_keys:
  assumes "assembleSchemas w framework timestamp = Inr (detected, schemas)"
  shows "map fst schemas = schemaKeys @ [lit ''metadata'']"
    and "schemaNames schemas = JArray (map JString schemaKeys)"
proof -
  from assms[unfolded assembleSchemas_def] obtain d t s where
    s: "dispatch w t = Inr s"
    and r: "Inr (d, set_property s (lit ''metadata'') (metadataOf w d timestamp)) = (Inr (detected, schemas) :: js_error + jsvalue \<times> (jsstring \<times> jsvalue) list)"
    by (elim then_do_InrE) blast
  from dispatch_keys[OF s] have k: "map fst s = schemaKeys" .
  with schemaKeys_no_metadata have "lit ''metadata'' \<notin> set (map fst s)" by simp
  from set_property_new[OF metadata_neq this] r
  have e: "schemas = s @ [(lit ''metadata'', metadataOf w detected timestamp)]" by auto
  with k show "map fst schemas = schemaKeys @ [lit ''metadata'']" by simp
  have "filter (\<lambda>key. key \<noteq> lit ''metadata'') schemaKeys = schemaKeys"
    using schemaKeys_no_metadata by (auto simp: filter_id_conv)
  with e k show "schemaNames schemas = JArray (map JString schemaKeys)"
    by (simp add: schemaNames_def)
qed

lemma ensureDirectories_noFaults: "ensureDirectories noFaults = Inr ()"
  by (simp add: ensureDirectories_def fs_step_def noFaults_def then_do_def)

lemma checkLaravel_object: "checkLaravel P pr = Inr (Some info) \<Longrightarrow> \<exists>ps. info = JObject ps"
  unfolding checkLaravel_def
  by (auto simp: frameworkInfo_def split: if_splits elim!: then_do_InrE)

lemma checkExpress_object: "checkExpress P pr = Inr (Some info) \<Longrightarrow> \<exists>ps. info = JObject ps"
  unfolding checkExpress_def
  by (auto simp: frameworkInfo_def split: if_splits elim!: then_do_InrE)

lemma detect_try_object:
  assumes "detectFramework_try P pr = Inr info"
  shows "\<exists>ps. info = JObject ps"
proof -
  from assms[unfolded detectFramework_try_def] obtain l where
    l: "checkLaravel P pr = Inr l"
    and rest: "(case l of
        Some info \<Rightarrow> Inr info
      | None \<Rightarrow>
          if fileExists pr (lit ''Gemfile'') \<and> fileExists pr (lit ''config/application.rb'')
          then Inr (frameworkInfo (lit ''rails'') (JString (lit ''detected'')))
          else if fileExists pr (lit ''manage.py'') \<and> fileExists pr (lit ''requirements.txt'')
          then Inr (frameworkInfo (lit ''django'') (JString (lit ''detected'')))
          else then_do (checkExpress P pr) (\<lambda>returned.
            case returned of
              Some info \<Rightarrow> Inr info
            | None \<Rightarrow> Inr (frameworkInfo (lit ''unknown'') JNull))) = Inr info"
    by (elim then_do_InrE) blast
  show ?thesis
  proof (cases l)
    case (Some i)
    with l rest checkLaravel_object[of P pr info] show ?thesis by simp
  next
    case None
    show ?thesis
    proof (cases "fileExists pr (lit ''Gemfile'') \<and> fileExists pr (lit ''config/application.rb'')")
      case True
      with None rest show ?thesis by (auto simp: frameworkInfo_def)
    next
      case r: False
      show ?thesis
      proof (cases "fileExists pr (lit ''manage.py'') \<and> fileExists pr (lit ''requirements.txt'')")
        case True
        with None r rest show ?thesis by (auto simp: frameworkInfo_def)
      next
        case False
        with None r rest have
          "then_do (checkExpress P pr) (\<lambda>returned.
            case returned of
              Some info \<Rightarrow> Inr info
            | None \<Rightarrow> Inr (frameworkInfo (lit ''unknown'') JNull)) = Inr info"
          by (auto split: if_splits)
        then obtain x where x: "checkExpress P pr = Inr x"
          and y: "(case x of Some info \<Rightarrow> Inr info
                   | None \<Rightarrow> Inr (frameworkInfo (lit ''unknown'') JNull)) =
                  (Inr info :: js_error + jsvalue)"
          by (elim then_do_InrE) blast
        show ?thesis
        proof (cases x)
          case None
          with y show ?thesis by (auto simp: frameworkInfo_def)
        next
          case (Some i)
          with x y checkExpress_object[of P pr info] show ?thesis by simp
        qed
      qed
    qed
  qed
qed

lemma detect_object: "\<exists>ps. detectFramework P pr = Inr (JObject ps)"
proof (cases "detectFramework_try P pr")
  case (Inl e)
  then show ?thesis by (simp add: detectFramework_def)
next
  case (Inr info)
  with detect_try_object[OF Inr] show ?thesis by (auto simp: detectFramework_def)
qed

lemma detected_type_total:
  "\<exists>detected t. js_or framework (detectFramework P pr) = Inr detected
     \<and> get detected (lit ''type'') = Inr t"
proof (cases "truthy framework")
  case True
  with get_truthy[OF True, of "lit ''type''"] show ?thesis
    by (auto simp: js_or_def)
next
  case False
  obtain ps where "detectFramework P pr = Inr (JObject ps)"
    using detect_object by blast
  with False show ?thesis
    by (simp add: js_or_def get_object)
qed

lemma assemble_stubs:
  assumes "js_or framework (detectFramework (JSON_parse_of w) (project_files w)) = Inr detected"
    and "get detected (lit ''type'') = Inr t"
    and "t \<noteq> JString (lit ''laravel'')"
  shows "assembleSchemas w framework timestamp =
     Inr (detected,
          (if t = JString (lit ''rails'') then generateRailsSchemas
           else if t = JString (lit ''django'') then generateDjangoSchemas
           else if t = JString (lit ''express'') then generateExpressSchemas
           else generateGenericSchemas)
          @ [(lit ''metadata'', metadataOf w detected timestamp)])"
proof -
  define stubs where "stubs =
          (if t = JString (lit ''rails'') then generateRailsSchemas
           else if t = JString (lit ''django'') then generateDjangoSchemas
           else if t = JString (lit ''express'') then generateExpressSchemas
           else generateGenericSchemas)"
  have d: "dispatch w t = Inr stubs"
    using assms(3) by (simp add: dispatch_def stubs_def)
  have "map fst stubs = schemaKeys"
    by (rule dispatch_keys[OF d])
  with schemaKeys_no_metadata have "lit ''metadata'' \<notin> set (map fst stubs)"
    by simp
  from set_property_new[OF metadata_neq this]
  have "assembleSchemas w framework timestamp =
     Inr (detected, stubs @ [(lit ''metadata'', metadataOf w detected timestamp)])"
    by (simp add: assembleSchemas_def assms(1,2) d then_do_def)
  then show ?thesis
    by (simp only: stubs_def)
qed

lemma assemble_laravel:
  assumes "js_or framework (detectFramework (JSON_parse_of w) (project_files w)) = Inr detected"
    and "get detected (lit ''type'') = Inr (JString (lit ''laravel''))"
    and "laravelDatabaseSchema w = Inr database" and "laravelApiSchema w = Inr api"
    and "laravelBusinessLogicSchema w = Inr businessLogic"
    and "laravelComponentSchema w = Inr componentArchitecture"
  shows "assembleSchemas w framework timestamp =
     Inr (detected,
          [(lit ''database'', database), (lit ''api'', api),
           (lit ''businessLogic'', businessLogic),
           (lit ''componentArchitecture'', componentArchitecture),
           (lit ''metadata'', metadataOf w detected timestamp)])"
proof -
  define docs where "docs =
          [(lit ''database'', database), (lit ''api'', api),
           (lit ''businessLogic'', businessLogic),
           (lit ''componentArchitecture'', componentArchitecture)]"
  have d: "dispatch w (JString (lit ''laravel'')) = Inr docs"
    by (simp add: dispatch_def generateLaravelSchemas_def assms(3-6) then_do_def docs_def)
  have "map fst docs = schemaKeys"
    by (rule dispatch_keys[OF d])
  with schemaKeys_no_metadata have "lit ''metadata'' \<notin> set (map fst docs)"
    by simp
  from set_property_new[OF metadata_neq this]
  have "assembleSchemas w framework timestamp =
     Inr (detected, docs @ [(lit ''metadata'', metadataOf w detected timestamp)])"
    by (simp add: assembleSchemas_def assms(1,2) d then_do_def)
  then show ?thesis
    by (simp add: docs_def)
qed

lemma generate_succeeds:
  assumes "assembleSchemas w framework timestamp = Inr (detected, schemas)"
    and "disk_faults w = noFaults" and "readHistory (historyFile st) = JArray history"
  shows "\<exists>result st'. generateSchemas w framework timestamp saveTimestamp st = Inr (result, st')"
proof -
  from saveSchemas_noFaults[OF assms(3)] obtain st1 where
    "saveSchemas noFaults saveTimestamp schemas st = Inr st1"
    by blast
  then show ?thesis
    by (simp add: generateSchemas_def assms(1,2) ensureDirectories_noFaults then_do_def)
qed

text \<open>
  C3. When \<open>generateSchemas\<close> succeeds, the schema set it produced has exactly the keys
  \<open>database\<close>, \<open>api\<close>, \<open>businessLogic\<close>, \<open>componentArchitecture\<close> and \<open>metadata\<close>, whatever the
  framework, and the result lists the four schema names. The framework, given or
  detected, and its type are always obtained. For every type but \<open>laravel\<close>, given or
  detected, the four documents are placeholders: those of \<open>generateRailsSchemas\<close>,
  \<open>generateDjangoSchemas\<close> and \<open>generateExpressSchemas\<close> for \<open>rails\<close>, \<open>django\<close> and
  \<open>express\<close>, and those of \<open>generateGenericSchemas\<close> for every other type, \<open>unknown\<close> among
  them; for \<open>laravel\<close> they are the documents of the four Laravel generators, when each
  gives one. In particular a project root where no marker condition holds gets the
  placeholders of \<open>generateGenericSchemas\<close>. In each of these cases the generation
  succeeds on a file system without faults and a ledger that holds an array (or is
  missing or unparsable).
\<close>

theorem generateSchemas_four_keys:
  "(generateSchemas w framework timestamp saveTimestamp st = Inr (result, st') \<longrightarrow>
      (\<exists>detected schemas.
          assembleSchemas w framework timestamp = Inr (detected, schemas)
          \<and> map fst schemas =
              [lit ''database'', lit ''api'', lit ''businessLogic'', lit ''componentArchitecture'',
               lit ''metadata'']
          \<and> get result (lit ''schemas'') =
              Inr (JArray [JString (lit ''database''), JString (lit ''api''),
                           JString (lit ''businessLogic''), JString (lit ''componentArchitecture'')])
          \<and> get result (lit ''success'') = Inr (JBool True)))
   \<and> (\<exists>detected t.
        js_or framework (detectFramework (JSON_parse_of w) (project_files w)) = Inr detected
        \<and> get detected (lit ''type'') = Inr t)
   \<and> (js_or framework (detectFramework (JSON_parse_of w) (project_files w)) = Inr detected
        \<and> get detected (lit ''type'') = Inr t \<and> t \<noteq> JString (lit ''laravel'') \<longrightarrow>
        assembleSchemas w framework timestamp =
          Inr (detected,
               (if t = JString (lit ''rails'') then generateRailsSchemas
                else if t = JString (lit ''django'') then generateDjangoSchemas
                else if t = JString (lit ''express'') then generateExpressSchemas
                else generateGenericSchemas)
               @ [(lit ''metadata'', metadataOf w detected timestamp)])
        \<and> (disk_faults w = noFaults \<and> readHistory (historyFile st) = JArray history \<longrightarrow>
             (\<exists>result st'. generateSchemas w framework timestamp saveTimestamp st = Inr (result, st'))))
   \<and> (js_or framework (detectFramework (JSON_parse_of w) (project_files w)) = Inr detected
        \<and> get detected (lit ''type'') = Inr (JString (lit ''laravel''))
        \<and> laravelDatabaseSchema w = Inr database \<and> laravelApiSchema w = Inr api
        \<and> laravelBusinessLogicSchema w = Inr businessLogic
        \<and> laravelComponentSchema w = Inr componentArchitecture \<longrightarrow>
        assembleSchemas w framework timestamp =
          Inr (detected,
               [(lit ''database'', database), (lit ''api'', api),
                (lit ''businessLogic'', businessLogic),
                (lit ''componentArchitecture'', componentArchitecture),
                (lit ''metadata'', metadataOf w detected timestamp)])
        \<and> (disk_faults w = noFaults \<and> readHistory (historyFile st) = JArray history \<longrightarrow>
             (\<exists>result st'. generateSchemas w framework timestamp saveTimestamp st = Inr (result, st'))))
   \<and> (\<not> truthy framework
        \<and> \<not> laravelMarkers (project_files w) \<and> \<not> railsMarkers (project_files w)
        \<and> \<not> djangoMarkers (project_files w)
        \<and> \<not> expressMarkers (JSON_parse_of w) (project_files w) \<longrightarrow>
        (\<exists>detected.
           detectFramework (JSON_parse_of w) (project_files w) = Inr detected
           \<and> get detected (lit ''type'') = Inr (JString (lit ''unknown''))
           \<and> assembleSchemas w framework timestamp =
               Inr (detected,
                    generateGenericSchemas @ [(lit ''metadata'', metadataOf w detected timestamp)]))
        \<and> (disk_faults w = noFaults \<and> readHistory (historyFile st) = JArray history \<longrightarrow>
             (\<exists>result st'. generateSchemas w framework timestamp saveTimestamp st = Inr (result, st'))))"
proof -
  have a: "generateSchemas w framework timestamp saveTimestamp st = Inr (result, st') \<longrightarrow>
      (\<exists>detected schemas.
          assembleSchemas w framework timestamp = Inr (detected, schemas)
          \<and> map fst schemas =
              [lit ''database'', lit ''api'', lit ''businessLogic'', lit ''componentArchitecture'',
               lit ''metadata'']
          \<and> get result (lit ''schemas'') =
              Inr (JArray [JString (lit ''database''), JString (lit ''api''),
                           JString (lit ''businessLogic''), JString (lit ''componentArchitecture'')])
          \<and> get result (lit ''success'') = Inr (JBool True))"
  proof
    assume g: "generateSchemas w framework timestamp saveTimestamp st = Inr (result, st')"
    from g[unfolded generateSchemas_def] obtain ds where
      as: "assembleSchemas w framework timestamp = Inr ds"
      and rest: "(case ds of (detectedFramework, schemas) \<Rightarrow>
         then_do (saveSchemas (disk_faults w) saveTimestamp schemas st) (\<lambda>st.
           Inr (JObject [(lit ''success'', JBool True),
                     (lit ''framework'', detectedFramework),
                     (lit ''schemas'', schemaNames schemas),
                     (lit ''timestamp'', JString timestamp),
                     (lit ''location'',
                        JString (projectRoot w @ lit ''/.taskmaster/schemas/current''))],
            st))) = Inr (result, st')"
      by (elim then_do_InrE) blast
    obtain detected schemas where ds: "ds = (detected, schemas)" by (cases ds)
    from rest[unfolded ds] have "\<exists>st1. Inr (JObject [(lit ''success'', JBool True),
                     (lit ''framework'', detected),
                     (lit ''schemas'', schemaNames schemas),
                     (lit ''timestamp'', JString timestamp),
                     (lit ''location'',
                        JString (projectRoot w @ lit ''/.taskmaster/schemas/current''))],
            st1) = (Inr (result, st') :: js_error + jsvalue \<times> store)"
      by (auto elim: then_do_InrE)
    then have r: "result = JObject [(lit ''success'', JBool True),
                     (lit ''framework'', detected),
                     (lit ''schemas'', schemaNames schemas),
                     (lit ''timestamp'', JString timestamp),
                     (lit ''location'',
                        JString (projectRoot w @ lit ''/.taskmaster/schemas/current''))]"
      by auto
    have n: "lit ''success'' \<noteq> lit ''schemas''" "lit ''framework'' \<noteq> lit ''schemas''"
      "lit ''schemas'' \<noteq> lit ''success''" "lit ''schemas'' \<noteq> lit ''framework''"
      by (simp_all add: lit_def)
    have 1: "map fst schemas =
              [lit ''database'', lit ''api'', lit ''businessLogic'', lit ''componentArchitecture'',
               lit ''metadata'']"
      using assemble_keys(1)[OF as[unfolded ds]] by (simp add: schemaKeys_def)
    have 2: "get result (lit ''schemas'') =
              Inr (JArray [JString (lit ''database''), JString (lit ''api''),
                           JString (lit ''businessLogic''), JString (lit ''componentArchitecture'')])"
      using assemble_keys(2)[OF as[unfolded ds]] by (simp add: r n schemaKeys_def)
    have 3: "get result (lit ''success'') = Inr (JBool True)"
      by (simp add: r)
    show "\<exists>detected schemas.
          assembleSchemas w framework timestamp = Inr (detected, schemas)
          \<and> map fst schemas =
              [lit ''database'', lit ''api'', lit ''businessLogic'', lit ''componentArchitecture'',
               lit ''metadata'']
          \<and> get result (lit ''schemas'') =
              Inr (JArray [JString (lit ''database''), JString (lit ''api''),
                           JString (lit ''businessLogic''), JString (lit ''componentArchitecture'')])
          \<and> get result (lit ''success'') = Inr (JBool True)"
      by (intro exI[of _ detected] exI[of _ schemas] conjI as[unfolded ds] 1 2 3)
  qed
  have t: "\<exists>detected t.
        js_or framework (detectFramework (JSON_parse_of w) (project_files w)) = Inr detected
        \<and> get detected (lit ''type'') = Inr t"
    by (rule detected_type_total)
  have b: "js_or framework (detectFramework (JSON_parse_of w) (project_files w)) = Inr detected
        \<and> get detected (lit ''type'') = Inr t \<and> t \<noteq> JString (lit ''laravel'') \<longrightarrow>
        assembleSchemas w framework timestamp =
          Inr (detected,
               (if t = JString (lit ''rails'') then generateRailsSchemas
                else if t = JString (lit ''django'') then generateDjangoSchemas
                else if t = JString (lit ''express'') then generateExpressSchemas
                else generateGenericSchemas)
               @ [(lit ''metadata'', metadataOf w detected timestamp)])
        \<and> (disk_faults w = noFaults \<and> readHistory (historyFile st) = JArray history \<longrightarrow>
             (\<exists>result st'. generateSchemas w framework timestamp saveTimestamp st = Inr (result, st')))"
  proof
    assume h: "js_or framework (detectFramework (JSON_parse_of w) (project_files w)) = Inr detected
        \<and> get detected (lit ''type'') = Inr t \<and> t \<noteq> JString (lit ''laravel'')"
    then have as: "assembleSchemas w framework timestamp =
          Inr (detected,
               (if t = JString (lit ''rails'') then generateRailsSchemas
                else if t = JString (lit ''django'') then generateDjangoSchemas
                else if t = JString (lit ''express'') then generateExpressSchemas
                else generateGenericSchemas)
               @ [(lit ''metadata'', metadataOf w detected timestamp)])"
      using assemble_stubs[of framework w detected t timestamp] by blast
    have "disk_faults w = noFaults \<and> readHistory (historyFile st) = JArray history \<longrightarrow>
             (\<exists>result st'. generateSchemas w framework timestamp saveTimestamp st = Inr (result, st'))"
      using generate_succeeds[OF as, of st history saveTimestamp] by blast
    with as show "assembleSchemas w framework timestamp =
          Inr (detected,
               (if t = JString (lit ''rails'') then generateRailsSchemas
                else if t = JString (lit ''django'') then generateDjangoSchemas
                else if t = JString (lit ''express'') then generateExpressSchemas
                else generateGenericSchemas)
               @ [(lit ''metadata'', metadataOf w detected timestamp)])
        \<and> (disk_faults w = noFaults \<and> readHistory (historyFile st) = JArray history \<longrightarrow>
             (\<exists>result st'. generateSchemas w framework timestamp saveTimestamp st = Inr (result, st')))"
      by (intro conjI)
  qed
  have l: "js_or framework (detectFramework (JSON_parse_of w) (project_files w)) = Inr detected
        \<and> get detected (lit ''type'') = Inr (JString (lit ''laravel''))
        \<and> laravelDatabaseSchema w = Inr database \<and> laravelApiSchema w = Inr api
        \<and> laravelBusinessLogicSchema w = Inr businessLogic
        \<and> laravelComponentSchema w = Inr componentArchitecture \<longrightarrow>
        assembleSchemas w framework timestamp =
          Inr (detected,
               [(lit ''database'', database), (lit ''api'', api),
                (lit ''businessLogic'', businessLogic),
                (lit ''componentArchitecture'', componentArchitecture),
                (lit ''metadata'', metadataOf w detected timestamp)])
        \<and> (disk_faults w = noFaults \<and> readHistory (historyFile st) = JArray history \<longrightarrow>
             (\<exists>result st'. generateSchemas w framework timestamp saveTimestamp st = Inr (result, st')))"
  proof
    assume h: "js_or framework (detectFramework (JSON_parse_of w) (project_files w)) = Inr detected
        \<and> get detected (lit ''type'') = Inr (JString (lit ''laravel''))
        \<and> laravelDatabaseSchema w = Inr database \<and> laravelApiSchema w = Inr api
        \<and> laravelBusinessLogicSchema w = Inr businessLogic
        \<and> laravelComponentSchema w = Inr componentArchitecture"
    then have as: "assembleSchemas w framework timestamp =
          Inr (detected,
               [(lit ''database'', database), (lit ''api'', api),
                (lit ''businessLogic'', businessLogic),
                (lit ''componentArchitecture'', componentArchitecture),
                (lit ''metadata'', metadataOf w detected timestamp)])"
      using assemble_laravel[of framework w detected database api businessLogic
          componentArchitecture timestamp] by blast
    have "disk_faults w = noFaults \<and> readHistory (historyFile st) = JArray history \<longrightarrow>
             (\<exists>result st'. generateSchemas w framework timestamp saveTimestamp st = Inr (result, st'))"
      using generate_succeeds[OF as, of st history saveTimestamp] by blast
    with as show "assembleSchemas w framework timestamp =
          Inr (detected,
               [(lit ''database'', database), (lit ''api'', api),
                (lit ''businessLogic'', businessLogic),
                (lit ''componentArchitecture'', componentArchitecture),
                (lit ''metadata'', metadataOf w detected timestamp)])
        \<and> (disk_faults w = noFaults \<and> readHistory (historyFile st) = JArray history \<longrightarrow>
             (\<exists>result st'. generateSchemas w framework timestamp saveTimestamp st = Inr (result, st')))"
      by (intro conjI)
  qed
  have u: "\<not> truthy framework
        \<and> \<not> laravelMarkers (project_files w) \<and> \<not> railsMarkers (project_files w)
        \<and> \<not> djangoMarkers (project_files w)
        \<and> \<not> expressMarkers (JSON_parse_of w) (project_files w) \<longrightarrow>
        (\<exists>detected.
           detectFramework (JSON_parse_of w) (project_files w) = Inr detected
           \<and> get detected (lit ''type'') = Inr (JString (lit ''unknown''))
           \<and> assembleSchemas w framework timestamp =
               Inr (detected,
                    generateGenericSchemas @ [(lit ''metadata'', metadataOf w detected timestamp)]))
        \<and> (disk_faults w = noFaults \<and> readHistory (historyFile st) = JArray history \<longrightarrow>
             (\<exists>result st'. generateSchemas w framework timestamp saveTimestamp st = Inr (result, st')))"
  proof
    assume h: "\<not> truthy framework
        \<and> \<not> laravelMarkers (project_files w) \<and> \<not> railsMarkers (project_files w)
        \<and> \<not> djangoMarkers (project_files w)
        \<and> \<not> expressMarkers (JSON_parse_of w) (project_files w)"
    then obtain d where d: "detectFramework (JSON_parse_of w) (project_files w) = Inr d"
      "get d (lit ''type'') = Inr (JString (lit ''unknown''))"
      using detect_unknown_type[of "project_files w" "JSON_parse_of w"] by blast
    from h d(1) have j: "js_or framework (detectFramework (JSON_parse_of w) (project_files w)) = Inr d"
      by (simp add: js_or_def)
    have n: "lit ''unknown'' \<noteq> lit ''laravel''" "lit ''unknown'' \<noteq> lit ''rails''"
      "lit ''unknown'' \<noteq> lit ''django''" "lit ''unknown'' \<noteq> lit ''express''"
      by (simp_all add: lit_def)
    have "JString (lit ''unknown'') \<noteq> JString (lit ''laravel'')"
      using n by simp
    from assemble_stubs[OF j d(2) this, of timestamp]
    have as: "assembleSchemas w framework timestamp =
               Inr (d, generateGenericSchemas @ [(lit ''metadata'', metadataOf w d timestamp)])"
      by (simp add: n)
    have s: "disk_faults w = noFaults \<and> readHistory (historyFile st) = JArray history \<longrightarrow>
             (\<exists>result st'. generateSchemas w framework timestamp saveTimestamp st = Inr (result, st'))"
      using generate_succeeds[OF as, of st history saveTimestamp] by blast
    have "\<exists>detected.
           detectFramework (JSON_parse_of w) (project_files w) = Inr detected
           \<and> get detected (lit ''type'') = Inr (JString (lit ''unknown''))
           \<and> assembleSchemas w framework timestamp =
               Inr (detected,
                    generateGenericSchemas @ [(lit ''metadata'', metadataOf w detected timestamp)])"
      by (intro exI[of _ d] conjI d as)
    with s show "(\<exists>detected.
           detectFramework (JSON_parse_of w) (project_files w) = Inr detected
           \<and> get detected (lit ''type'') = Inr (JString (lit ''unknown''))
           \<and> assembleSchemas w framework timestamp =
               Inr (detected,
                    generateGenericSchemas @ [(lit ''metadata'', metadataOf w detected timestamp)]))
        \<and> (disk_faults w = noFaults \<and> readHistory (historyFile st) = JArray history \<longrightarrow>
             (\<exists>result st'. generateSchemas w framework timestamp saveTimestamp st = Inr (result, st')))"
      by (intro conjI)
  qed
  show ?thesis by (intro conjI a t b l u)
qed

theorem generateSchemas_four_keys_witness:
  "assembleSchemas bareWorld (JObject [(lit ''type'', JString (lit ''rails''))])
       (lit ''2024-01-01T00:00:00.000Z'') =
     Inr (JObject [(lit ''type'', JString (lit ''rails''))],
          generateRailsSchemas
          @ [(lit ''metadata'',
              metadataOf bareWorld (JObject [(lit ''type'', JString (lit ''rails''))])
                (lit ''2024-01-01T00:00:00.000Z''))])
   \<and> (\<exists>result st'.
        generateSchemas bareWorld (JObject [(lit ''type'', JString (lit ''rails''))])
            (lit ''2024-01-01T00:00:00.000Z'') (stamp 0) emptyStore
          = Inr (result, st')
        \<and> get result (lit ''schemas'') =
              Inr (JArray [JString (lit ''database''), JString (lit ''api''),
                           JString (lit ''businessLogic''), JString (lit ''componentArchitecture'')]))
   \<and> assembleSchemas bareWorld JNull (lit ''2024-01-01T00:00:00.000Z'') =
       Inr (frameworkInfo (lit ''unknown'') JNull,
            generateGenericSchemas
            @ [(lit ''metadata'',
                metadataOf bareWorld (frameworkInfo (lit ''unknown'') JNull)
                  (lit ''2024-01-01T00:00:00.000Z''))])
   \<and> (\<exists>result st'.
        generateSchemas bareWorld JNull (lit ''2024-01-01T00:00:00.000Z'') (stamp 0) emptyStore
          = Inr (result, st'))
   \<and> assembleSchemas laravelWorld JNull (lit ''2024-01-01T00:00:00.000Z'') =
       Inr (frameworkInfo (lit ''laravel'') (JString (lit ''^10.0'')),
            [(lit ''database'', typed (lit ''database'')), (lit ''api'', typed (lit ''api'')),
             (lit ''businessLogic'', typed (lit ''business_logic'')),
             (lit ''componentArchitecture'', typed (lit ''component_architecture'')),
             (lit ''metadata'',
                metadataOf laravelWorld (frameworkInfo (lit ''laravel'') (JString (lit ''^10.0'')))
                  (lit ''2024-01-01T00:00:00.000Z''))])
   \<and> (\<exists>result st'.
        generateSchemas laravelWorld JNull (lit ''2024-01-01T00:00:00.000Z'') (stamp 0) emptyStore
          = Inr (result, st'))"
proof -
  let ?t = "lit ''2024-01-01T00:00:00.000Z''"
  let ?rails = "JObject [(lit ''type'', JString (lit ''rails''))]"
  let ?unknown = "frameworkInfo (lit ''unknown'') JNull"
  let ?laravel = "frameworkInfo (lit ''laravel'') (JString (lit ''^10.0''))"
  note inst = generateSchemas_four_keys[where timestamp = "?t" and saveTimestamp = "stamp 0"
      and st = emptyStore and history = "[]"]
  have f: "disk_faults bareWorld = noFaults \<and> readHistory (historyFile emptyStore) = JArray []"
    by (simp add: bareWorld_def emptyStore_def readHistory_def)
  have fl: "disk_faults laravelWorld = noFaults \<and> readHistory (historyFile emptyStore) = JArray []"
    by (simp add: laravelWorld_def emptyStore_def readHistory_def)
  have n: "lit ''rails'' \<noteq> lit ''laravel''" "lit ''unknown'' \<noteq> lit ''laravel''"
    "lit ''unknown'' \<noteq> lit ''rails''" "lit ''unknown'' \<noteq> lit ''django''"
    "lit ''unknown'' \<noteq> lit ''express''"
    by (simp_all add: lit_def)
  have hr: "js_or ?rails (detectFramework (JSON_parse_of bareWorld) (project_files bareWorld)) = Inr ?rails
        \<and> get ?rails (lit ''type'') = Inr (JString (lit ''rails''))
        \<and> JString (lit ''rails'') \<noteq> JString (lit ''laravel'')"
    by (simp add: js_or_def n)
  from inst[where w = bareWorld and framework = "?rails" and detected = "?rails"
      and t = "JString (lit ''rails'')"] hr f
  have r1: "assembleSchemas bareWorld ?rails ?t =
     Inr (?rails, generateRailsSchemas @ [(lit ''metadata'', metadataOf bareWorld ?rails ?t)])"
    and "\<exists>result st'. generateSchemas bareWorld ?rails ?t (stamp 0) emptyStore = Inr (result, st')"
    by simp_all
  then obtain result st' where
    g: "generateSchemas bareWorld ?rails ?t (stamp 0) emptyStore = Inr (result, st')"
    by blast
  from inst[where w = bareWorld and framework = "?rails" and result = result and st' = st'] g
  have "get result (lit ''schemas'') =
              Inr (JArray [JString (lit ''database''), JString (lit ''api''),
                           JString (lit ''businessLogic''), JString (lit ''componentArchitecture'')])"
    by blast
  with g have r2: "\<exists>result st'.
        generateSchemas bareWorld ?rails ?t (stamp 0) emptyStore = Inr (result, st')
        \<and> get result (lit ''schemas'') =
              Inr (JArray [JString (lit ''database''), JString (lit ''api''),
                           JString (lit ''businessLogic''), JString (lit ''componentArchitecture'')])"
    by blast
  have d: "detectFramework (JSON_parse_of bareWorld) (project_files bareWorld) = Inr ?unknown"
    by (rule detect_no_files)
       (simp_all add: bareWorld_def emptyProject_def railsMarkers_def djangoMarkers_def fileExists_def)
  have hu: "\<not> truthy JNull
        \<and> \<not> laravelMarkers (project_files bareWorld) \<and> \<not> railsMarkers (project_files bareWorld)
        \<and> \<not> djangoMarkers (project_files bareWorld)
        \<and> \<not> expressMarkers (JSON_parse_of bareWorld) (project_files bareWorld)"
    by (simp add: bareWorld_def emptyProject_def laravelMarkers_def railsMarkers_def
        djangoMarkers_def expressMarkers_def fileExists_def)
  from inst[where w = bareWorld and framework = JNull] hu f
  have "\<exists>detected.
           detectFramework (JSON_parse_of bareWorld) (project_files bareWorld) = Inr detected
           \<and> get detected (lit ''type'') = Inr (JString (lit ''unknown''))
           \<and> assembleSchemas bareWorld JNull ?t =
               Inr (detected,
                    generateGenericSchemas @ [(lit ''metadata'', metadataOf bareWorld detected ?t)])"
    and u2: "\<exists>result st'. generateSchemas bareWorld JNull ?t (stamp 0) emptyStore = Inr (result, st')"
    by blast+
  with d have u1: "assembleSchemas bareWorld JNull ?t =
     Inr (?unknown, generateGenericSchemas @ [(lit ''metadata'', metadataOf bareWorld ?unknown ?t)])"
    by auto
  let ?pr = "laravelProject (composerJson (lit ''^10.0''))"
  have a: "fileExists ?pr (lit ''artisan'')" "fileExists ?pr (lit ''composer.json'')"
    "readFile ?pr (lit ''composer.json'') = Inr (composerJson (lit ''^10.0''))"
    by (simp_all add: laravelProject_def fileExists_def)
  have rq: "requiredLaravel (composerParsed (lit ''^10.0'')) = JString (lit ''^10.0'')"
    by (simp add: requiredLaravel_def composerParsed_def)
  have ne: "lit ''^10.0'' \<noteq> []"
    by (simp add: lit_def)
  have dl: "detectFramework exampleParser ?pr = Inr ?laravel"
    using detect_laravel[OF a composerJson_includes, of exampleParser]
    by (simp add: extractLaravelVersion_eq exampleParser_def rq ne)
  have hl: "js_or JNull (detectFramework (JSON_parse_of laravelWorld) (project_files laravelWorld)) =
          Inr ?laravel
        \<and> get ?laravel (lit ''type'') = Inr (JString (lit ''laravel''))
        \<and> laravelDatabaseSchema laravelWorld = Inr (typed (lit ''database''))
        \<and> laravelApiSchema laravelWorld = Inr (typed (lit ''api''))
        \<and> laravelBusinessLogicSchema laravelWorld = Inr (typed (lit ''business_logic''))
        \<and> laravelComponentSchema laravelWorld = Inr (typed (lit ''component_architecture''))"
    using dl by (simp add: js_or_def get_frameworkInfo_type laravelWorld_def)
  from inst[where w = laravelWorld and framework = JNull and detected = "?laravel"
      and database = "typed (lit ''database'')" and api = "typed (lit ''api'')"
      and businessLogic = "typed (lit ''business_logic'')"
      and componentArchitecture = "typed (lit ''component_architecture'')"] hl fl
  have l1: "assembleSchemas laravelWorld JNull ?t =
       Inr (?laravel,
            [(lit ''database'', typed (lit ''database'')), (lit ''api'', typed (lit ''api'')),
             (lit ''businessLogic'', typed (lit ''business_logic'')),
             (lit ''componentArchitecture'', typed (lit ''component_architecture'')),
             (lit ''metadata'', metadataOf laravelWorld ?laravel ?t)])"
    and l2: "\<exists>result st'. generateSchemas laravelWorld JNull ?t (stamp 0) emptyStore = Inr (result, st')"
    by simp_all
  show ?thesis
    by (intro conjI r1 r2 u1 u2 l1 l2)
qed


subsection \<open>Schema information and freshness\<close>

lemma getSchemaInfo_total: "\<exists>info. getSchemaInfo env = Inr info"
  by (simp add: getSchemaInfo_def split: sum.splits)

lemma lit_keys_neq:
  "lit ''success'' \<noteq> lit ''versions''" "lit ''current'' \<noteq> lit ''versions''"
  "lit ''availableSchemas'' \<noteq> lit ''versions''" "lit ''versions'' \<noteq> lit ''success''"
  "lit ''versions'' \<noteq> lit ''current''" "lit ''versions'' \<noteq> lit ''availableSchemas''"
  "lit ''success'' \<noteq> lit ''current''" "lit ''current'' \<noteq> lit ''success''"
  "lit ''error'' \<noteq> lit ''versions''" "lit ''versions'' \<noteq> lit ''error''"
  "lit ''location'' \<noteq> lit ''versions''" "lit ''versions'' \<noteq> lit ''location''"
  "lit ''error'' \<noteq> lit ''current''" "lit ''current'' \<noteq> lit ''error''"
  "lit ''location'' \<noteq> lit ''current''" "lit ''current'' \<noteq> lit ''location''"
  "lit ''error'' \<noteq> lit ''success''" "lit ''success'' \<noteq> lit ''error''"
  by (simp_all add: lit_def)

lemma getSchemaInfo_success:
  assumes "getSchemaInfo env = Inr info" "get info (lit ''success'') = Inr (JBool True)"
  shows "get info (lit ''versions'') = Inr (JArray (map JString (take 10 (listSchemaVersions env))))"
proof (cases "getSchemaInfo_try env")
  case (Inl e)
  with assms show ?thesis by (auto simp: getSchemaInfo_def)
next
  case (Inr i)
  with assms(1) have i: "i = info" by (simp add: getSchemaInfo_def)
  from Inr[unfolded getSchemaInfo_try_def Let_def] show ?thesis
    unfolding i by (auto simp: then_do_def lit_keys_neq split: sum.splits)
qed

lemma listSchemaVersions_eq: "listSchemaVersions env = rev (sort (versionNames env))"
  by (simp add: listSchemaVersions_def versionNames_def split: sum.splits)

lemma newest_sorted:
  fixes names :: "jsstring list"
  defines "newest \<equiv> take 10 (rev (sort names))"
  shows "length newest \<le> 10"
    and "length newest = min 10 (length names)"
    and "sorted (rev newest)"
    and "set newest \<subseteq> set names"
    and "\<forall>x \<in> set names - set newest. \<forall>v \<in> set newest. x \<le> v"
proof -
  let ?d = "rev (sort names)"
  show "length newest \<le> 10" by (simp add: newest_def)
  show "length newest = min 10 (length names)" by (simp add: newest_def min.commute)
  have "rev newest = drop (length names - 10) (sort names)"
    by (simp add: newest_def take_rev)
  then show "sorted (rev newest)" by (simp add: sorted_wrt_drop)
  show "set newest \<subseteq> set names"
    using set_take_subset[of 10 ?d] by (simp add: newest_def)
  have s: "sorted_wrt (\<lambda>a b. b \<le> a) ?d"
    by (simp add: sorted_wrt_rev)
  have "?d = newest @ drop 10 ?d" by (simp add: newest_def)
  with s have "sorted_wrt (\<lambda>a b. b \<le> a) (newest @ drop 10 ?d)" by simp
  then have a: "\<forall>v \<in> set newest. \<forall>x \<in> set (drop 10 ?d). x \<le> v"
    by (simp add: sorted_wrt_append)
  have "set names = set newest \<union> set (drop 10 ?d)"
    unfolding newest_def set_append[symmetric] append_take_drop_id by simp
  with a show "\<forall>x \<in> set names - set newest. \<forall>v \<in> set newest. x \<le> v" by blast
qed

text \<open>
  C10. When \<open>getSchemaInfo\<close> succeeds, its version list is the first ten names of the
  versions archive in descending lexicographic order: at most ten entries, ten when the
  archive holds ten or more, in descending order, each a name of the archive, and every
  name of the archive that is left out is no larger than any listed one.
\<close>

theorem getSchemaInfo_versions:
  assumes "getSchemaInfo env = Inr info" and "get info (lit ''success'') = Inr (JBool True)"
  shows "\<exists>versions.
     get info (lit ''versions'') = Inr (JArray (map JString versions))
     \<and> versions = take 10 (rev (sort (versionNames env)))
     \<and> length versions \<le> 10
     \<and> length versions = min 10 (length (versionNames env))
     \<and> sorted (rev versions)
     \<and> set versions \<subseteq> set (versionNames env)
     \<and> (\<forall>x \<in> set (versionNames env) - set versions. \<forall>v \<in> set versions. x \<le> v)"
proof -
  let ?v = "take 10 (rev (sort (versionNames env)))"
  have 1: "get info (lit ''versions'') = Inr (JArray (map JString ?v))"
    using getSchemaInfo_success[OF assms] by (simp add: listSchemaVersions_eq)
  show ?thesis
    by (intro exI[of _ ?v] conjI 1 refl newest_sorted)
qed

lemma getSchemaInfo_ok:
  assumes "metadata_yml env = Loads metadata" "readdir_current env = Inr files"
  shows "\<exists>info. getSchemaInfo env = Inr info \<and> get info (lit ''success'') = Inr (JBool True)
           \<and> get info (lit ''current'') = Inr metadata"
  using assms
  by (simp add: getSchemaInfo_def getSchemaInfo_try_def readYaml_def then_do_def Let_def lit_keys_neq)


theorem getSchemaInfo_versions_witness:
  "\<exists>info versions.
     getSchemaInfo (schemaFiles (Loads exampleMetadata)) = Inr info
     \<and> get info (lit ''versions'') = Inr (JArray (map JString versions))
     \<and> length versions = 10
     \<and> length (versionNames (schemaFiles (Loads exampleMetadata))) = 12"
proof -
  let ?env = "schemaFiles (Loads exampleMetadata)"
  from getSchemaInfo_ok[of ?env exampleMetadata] obtain info where
    i: "getSchemaInfo ?env = Inr info" "get info (lit ''success'') = Inr (JBool True)"
    by (auto simp: schemaFiles_def)
  have n: "length (versionNames ?env) = 12"
    by (simp add: versionNames_def schemaFiles_def)
  from getSchemaInfo_versions[OF i] n obtain versions where
    "get info (lit ''versions'') = Inr (JArray (map JString versions))" "length versions = 10"
    by auto
  with i(1) n show ?thesis by blast
qed












end
